theory Spec2Isabelle
  imports Complex_Main "HOL-Library.Log_Nat"
begin

section \<open>Python values, exceptions and the log\<close>

text \<open>
  A Python float is an IEEE 754 binary64 value: a finite number, an infinity or NaN. A
  finite float is kept as the rational it stands for; the two zeros are not told apart
  (no comparison and no division of the program depends on the sign of a zero).
\<close>

datatype double = Finite rat | PosInf | NegInf | NaN

text \<open>
  The records the remote service returns are decoded JSON: the value type below has one
  constructor per JSON kind. A dictionary is an association list in which the first
  binding of a key is the one that counts.
\<close>

datatype pyval =
    PNone
  | PBool bool
  | PInt int
  | PFloat double
  | PStr string
  | PList "pyval list"
  | PDict "(string \<times> pyval) list"

datatype error =
    KeyError
  | TypeError
  | ValueError
  | AttributeError
  | OverflowError
  | ZeroDivisionError
  | ParseError
  | ClientError

datatype level = INFO | WARNING | ERROR

type_synonym log_entry = "level \<times> string"

definition bindE :: "error + 'a \<Rightarrow> ('a \<Rightarrow> error + 'b) \<Rightarrow> error + 'b" where
  "bindE m f = (case m of Inl e \<Rightarrow> Inl e | Inr x \<Rightarrow> f x)"

text \<open>Truth value of an object in a condition (\<^verbatim>\<open>if x:\<close>, \<^verbatim>\<open>x and y\<close>).\<close>

fun truthy :: "pyval \<Rightarrow> bool" where
  "truthy PNone = False"
| "truthy (PBool b) = b"
| "truthy (PInt i) = (i \<noteq> 0)"
| "truthy (PFloat d) = (d \<noteq> Finite 0)"
| "truthy (PStr s) = (s \<noteq> [])"
| "truthy (PList xs) = (xs \<noteq> [])"
| "truthy (PDict kvs) = (kvs \<noteq> [])"

text \<open>\<^verbatim>\<open>d.get(key, default)\<close>: only a dictionary has the method.\<close>

fun dict_get :: "pyval \<Rightarrow> string \<Rightarrow> pyval \<Rightarrow> error + pyval" where
  "dict_get (PDict kvs) k dflt = Inr (case map_of kvs k of None \<Rightarrow> dflt | Some v \<Rightarrow> v)"
| "dict_get _ k dflt = Inl AttributeError"

section \<open>Float arithmetic\<close>

text \<open>The nearest integer, ties to the even one.\<close>

definition round_half_even :: "rat \<Rightarrow> int" where
  "round_half_even q =
     (let f = \<lfloor>q\<rfloor>; d = q - of_int f
      in if d < 1 / 2 then f else if 1 / 2 < d then f + 1 else if even f then f else f + 1)"

definition pow2 :: "int \<Rightarrow> rat" where
  "pow2 e = (if 0 \<le> e then 2 ^ nat e else 1 / 2 ^ nat (- e))"

text \<open>The binary exponent of a positive rational \<open>a\<close>: \<open>2\<^sup>e \<le> a < 2\<^sup>e\<^sup>+\<^sup>1\<close>.\<close>

definition ilog2 :: "rat \<Rightarrow> int" where
  "ilog2 a = (if 1 \<le> a then bitlen \<lfloor>a\<rfloor> - 1 else - bitlen (\<lceil>1 / a\<rceil> - 1))"

text \<open>
  Rounding of a rational to binary64, to nearest, ties to even: 53 significant bits
  above the smallest normal exponent -1022, multiples of \<open>2\<^sup>-\<^sup>1\<^sup>0\<^sup>7\<^sup>4\<close> below it, and an
  infinity when the rounded value reaches \<open>2\<^sup>1\<^sup>0\<^sup>2\<^sup>4\<close> (the significand \<open>m\<close> is at most
  \<open>2\<^sup>5\<^sup>3\<close>, so that is when the unit \<open>2\<^sup>q\<close> is above \<open>2\<^sup>9\<^sup>7\<^sup>1\<close>, or equal to it with
  \<open>m = 2\<^sup>5\<^sup>3\<close>).
\<close>

definition rnd :: "rat \<Rightarrow> double" where
  "rnd x =
     (if x = 0 then Finite 0
      else
        (let a = \<bar>x\<bar>; q = max (ilog2 a) (- 1022) - 52;
             m = round_half_even (a / pow2 q)
         in if 971 < q \<or> (q = 971 \<and> 2 ^ 53 \<le> m) then (if 0 < x then PosInf else NegInf)
            else Finite (if 0 < x then of_int m * pow2 q else - (of_int m * pow2 q))))"

text \<open>An integer operand: \<^verbatim>\<open>bool\<close> is a subclass of \<^verbatim>\<open>int\<close>.\<close>

fun int_of :: "pyval \<Rightarrow> int option" where
  "int_of (PBool b) = Some (if b then 1 else 0)"
| "int_of (PInt i) = Some i"
| "int_of _ = None"

text \<open>Where Python raises OverflowError instead of returning an infinity.\<close>

definition checked :: "double \<Rightarrow> error + double" where
  "checked d = (case d of PosInf \<Rightarrow> Inl OverflowError | NegInf \<Rightarrow> Inl OverflowError | _ \<Rightarrow> Inr d)"

text \<open>
  The operand of a float operation: a float as it is, an integer converted (OverflowError
  when it is too large for a float), anything else a TypeError.
\<close>

definition to_double :: "pyval \<Rightarrow> error + double" where
  "to_double v =
     (case v of
        PFloat d \<Rightarrow> Inr d
      | _ \<Rightarrow> (case int_of v of None \<Rightarrow> Inl TypeError | Some i \<Rightarrow> checked (rnd (of_int i))))"

text \<open>
  Division of two floats: ZeroDivisionError on a zero divisor; otherwise the IEEE
  quotient, which may be an infinity or NaN.
\<close>

definition fdiv :: "double \<Rightarrow> double \<Rightarrow> error + double" where
  "fdiv x y =
     (case y of
        Finite b \<Rightarrow>
          if b = 0 then Inl ZeroDivisionError
          else (case x of
                  Finite a \<Rightarrow> Inr (rnd (a / b))
                | PosInf \<Rightarrow> Inr (if 0 < b then PosInf else NegInf)
                | NegInf \<Rightarrow> Inr (if 0 < b then NegInf else PosInf)
                | NaN \<Rightarrow> Inr NaN)
      | NaN \<Rightarrow> Inr NaN
      | _ \<Rightarrow> (case x of Finite a \<Rightarrow> Inr (Finite 0) | _ \<Rightarrow> Inr NaN))"

text \<open>
  \<^verbatim>\<open>a / b\<close>. Two integers give the correctly rounded quotient, or OverflowError when it is
  too large for a float; otherwise both operands become floats and are divided.
\<close>

definition truediv :: "pyval \<Rightarrow> pyval \<Rightarrow> error + double" where
  "truediv a b =
     (case (int_of a, int_of b) of
        (Some i, Some j) \<Rightarrow>
          if j = 0 then Inl ZeroDivisionError else checked (rnd (of_int i / of_int j))
      | _ \<Rightarrow> bindE (to_double a) (\<lambda>x. bindE (to_double b) (\<lambda>y. fdiv x y)))"

text \<open>\<^verbatim>\<open>x > 0\<close>: a TypeError unless \<open>x\<close> is a number; false for NaN.\<close>

fun gt0 :: "pyval \<Rightarrow> error + bool" where
  "gt0 (PBool b) = Inr b"
| "gt0 (PInt i) = Inr (0 < i)"
| "gt0 (PFloat (Finite r)) = Inr (0 < r)"
| "gt0 (PFloat PosInf) = Inr True"
| "gt0 (PFloat NegInf) = Inr False"
| "gt0 (PFloat NaN) = Inr False"
| "gt0 _ = Inl TypeError"

text \<open>
  \<^verbatim>\<open>round(x, 2)\<close> on a float: the exact value of \<open>x\<close> is rounded to the nearest multiple
  of 1/100, ties to even, and the float nearest to that decimal is returned
  (OverflowError when there is none); an infinity or NaN is returned as it is.
\<close>

definition py_round2 :: "double \<Rightarrow> error + double" where
  "py_round2 x =
     (case x of
        Finite r \<Rightarrow> checked (rnd (of_int (round_half_even (r * 100)) / 100))
      | _ \<Rightarrow> Inr x)"

section \<open>GarminConnectSync.calculate_pace\<close>

text \<open>
  \<^verbatim>\<open>
  if distance_meters and duration_seconds and distance_meters > 0:
      distance_km = distance_meters / 1000
      pace_seconds_per_km = duration_seconds / distance_km
      return round(pace_seconds_per_km, 2)
  return None
  \<close>
  The condition is evaluated left to right and stops at the first false operand, so the
  comparison (a TypeError on a string, a list or a dictionary) is only reached when both
  objects are true.
\<close>

definition calculate_pace :: "pyval \<Rightarrow> pyval \<Rightarrow> error + pyval" where
  "calculate_pace distance_meters duration_seconds =
     (if truthy distance_meters \<and> truthy duration_seconds then
        bindE (gt0 distance_meters) (\<lambda>positive.
          if positive then
            bindE (truediv distance_meters (PInt 1000)) (\<lambda>distance_km.
            bindE (truediv duration_seconds (PFloat distance_km)) (\<lambda>pace_seconds_per_km.
            bindE (py_round2 pace_seconds_per_km) (\<lambda>p. Inr (PFloat p))))
          else Inr PNone)
      else Inr PNone)"

section \<open>Dates and times\<close>

text \<open>
  A \<^verbatim>\<open>datetime\<close> is its wall-clock reading in microseconds since 0001-01-01T00:00:00
  and, for an aware value, its UTC offset in microseconds. A \<^verbatim>\<open>timedelta\<close> is a number
  of microseconds. Both types are bounded in Python, and leaving the range raises
  OverflowError.
\<close>

record datetime =
  us :: int
  tz :: "int option"

definition day_us :: int where
  "day_us = 86400000000"

definition max_us :: int where
  "max_us = 3652059 * 86400000000 - 1"

definition timedelta_ok :: "int \<Rightarrow> bool" where
  "timedelta_ok u = (- 999999999 \<le> u div day_us \<and> u div day_us \<le> 999999999)"

definition timedelta_checked :: "int \<Rightarrow> error + int" where
  "timedelta_checked u = (if timedelta_ok u then Inr u else Inl OverflowError)"

text \<open>
  \<^verbatim>\<open>timedelta(seconds=x)\<close>. An integer is exact. Of a float the whole part is exact and
  the fractional part is multiplied by \<open>10\<^sup>6\<close> in float arithmetic; the sum is rounded to
  the microsecond, ties to even. An infinity raises OverflowError and NaN ValueError when
  the whole part is converted to an integer.
\<close>

definition timedelta_seconds :: "pyval \<Rightarrow> error + int" where
  "timedelta_seconds x =
     (case x of
        PFloat d \<Rightarrow>
          (case d of
             Finite r \<Rightarrow>
               (let whole = (if 0 \<le> r then \<lfloor>r\<rfloor> else \<lceil>r\<rceil>)
                in case rnd ((r - of_int whole) * 1000000) of
                     Finite f \<Rightarrow> timedelta_checked (round_half_even (of_int whole * 1000000 + f))
                   | _ \<Rightarrow> Inl OverflowError)
           | NaN \<Rightarrow> Inl ValueError
           | _ \<Rightarrow> Inl OverflowError)
      | _ \<Rightarrow>
          (case int_of x of
             None \<Rightarrow> Inl TypeError
           | Some i \<Rightarrow> timedelta_checked (i * 1000000)))"

text \<open>\<^verbatim>\<open>timedelta(days=n)\<close> for an integer \<open>n\<close>.\<close>

definition timedelta_days :: "int \<Rightarrow> error + int" where
  "timedelta_days n = (if timedelta_ok (n * day_us) then Inr (n * day_us) else Inl OverflowError)"

definition dt_add :: "datetime \<Rightarrow> int \<Rightarrow> error + datetime" where
  "dt_add d delta =
     (let u = us d + delta
      in if 0 \<le> u \<and> u \<le> max_us then Inr (d\<lparr>us := u\<rparr>) else Inl OverflowError)"

text \<open>\<^verbatim>\<open>a > b\<close>: a naive and an aware value cannot be compared (TypeError).\<close>

definition dt_gt :: "datetime \<Rightarrow> datetime \<Rightarrow> error + bool" where
  "dt_gt a b =
     (case (tz a, tz b) of
        (None, None) \<Rightarrow> Inr (us b < us a)
      | (Some x, Some y) \<Rightarrow> Inr (us b - y < us a - x)
      | _ \<Rightarrow> Inl TypeError)"

section \<open>The track document and the runtime\<close>

text \<open>An element of \<^verbatim>\<open>xml.etree.ElementTree\<close>: tag, attributes, text, children.\<close>

datatype element =
  Element (tag: string) (attrib: "(string \<times> string) list") (text_of: "string option")
    (children: "element list")

text \<open>
  What the interpreter and its standard library supply and this repository does not
  define: \<^verbatim>\<open>datetime.fromisoformat\<close> (\<open>None\<close> is its ValueError),
  \<^verbatim>\<open>ET.fromstring\<close> (\<open>None\<close> is its ParseError), \<^verbatim>\<open>float\<close> on a string (\<open>None\<close> is
  its ValueError), \<^verbatim>\<open>str\<close> on a float, a list or a dictionary, and the reading of the
  clock in microseconds since 0001-01-01T00:00:00, taken as one value over a call. Every
  theorem below holds for any such runtime.
\<close>

record runtime =
  fromisoformat :: "string \<Rightarrow> datetime option"
  et_fromstring :: "string \<Rightarrow> element option"
  py_float :: "string \<Rightarrow> double option"
  repr_other :: "pyval \<Rightarrow> string"
  now :: int

text \<open>\<^verbatim>\<open>datetime.now()\<close>: a naive value.\<close>

definition datetime_now :: "runtime \<Rightarrow> datetime" where
  "datetime_now R = \<lparr>us = now R, tz = None\<rparr>"

text \<open>\<^verbatim>\<open>s.replace('Z', '')\<close> and \<^verbatim>\<open>s.replace('Z', '+00:00')\<close>: every occurrence.\<close>

definition replace_Z_empty :: "string \<Rightarrow> string" where
  "replace_Z_empty s = filter (\<lambda>c. c \<noteq> CHR ''Z'') s"

definition replace_Z_utc :: "string \<Rightarrow> string" where
  "replace_Z_utc s = concat (map (\<lambda>c. if c = CHR ''Z'' then ''+00:00'' else [c]) s)"

text \<open>\<^verbatim>\<open>p in s\<close> on strings: \<open>p\<close> occurs somewhere in \<open>s\<close>.\<close>

fun contains :: "string \<Rightarrow> string \<Rightarrow> bool" where
  "contains p [] = (p = [])"
| "contains p (c # cs) = (take (length p) (c # cs) = p \<or> contains p cs)"

text \<open>\<^verbatim>\<open>root.iter()\<close>: the element itself, then its descendants, in document order.\<close>

fun iter_el :: "element \<Rightarrow> element list" where
  "iter_el (Element t a x cs) = Element t a x cs # concat (map iter_el cs)"

text \<open>Decimal text of an integer, for \<^verbatim>\<open>str\<close>.\<close>

fun show_nat :: "nat \<Rightarrow> string" where
  "show_nat n =
     (if n < 10 then [''0123456789'' ! n] else show_nat (n div 10) @ [''0123456789'' ! (n mod 10)])"

definition show_int :: "int \<Rightarrow> string" where
  "show_int i = (if i < 0 then CHR ''-'' # show_nat (nat (- i)) else show_nat (nat i))"

fun py_str :: "runtime \<Rightarrow> pyval \<Rightarrow> string" where
  "py_str R PNone = ''None''"
| "py_str R (PBool b) = (if b then ''True'' else ''False'')"
| "py_str R (PInt i) = show_int i"
| "py_str R (PStr s) = s"
| "py_str R v = repr_other R v"

section \<open>GarminConnectSync.parse_gpx_simple\<close>

record gps_point =
  latitude :: double
  longitude :: double
  elevation_meters :: "double option"
  speed_mps :: "double option"
  timestamp :: datetime

text \<open>A string that is present and not empty (\<^verbatim>\<open>if lat\<close>, \<^verbatim>\<open>if child.text\<close>).\<close>

fun truthy_str :: "string option \<Rightarrow> bool" where
  "truthy_str None = False"
| "truthy_str (Some s) = (s \<noteq> [])"

text \<open>
  One pass of the loop over the children of a track-point:
  \<^verbatim>\<open>
  if 'ele' in child.tag:
      point['elevation_meters'] = float(child.text) if child.text else None
  elif 'time' in child.tag and child.text:
      try:
          point['timestamp'] = datetime.fromisoformat(child.text.replace('Z', '+00:00'))
      except:
          pass
  \<close>
  The conversion of the elevation is not inside a \<^verbatim>\<open>try\<close> of its own.
\<close>

definition child_step :: "runtime \<Rightarrow> element \<Rightarrow> gps_point \<Rightarrow> error + gps_point" where
  "child_step R child point =
     (if contains ''ele'' (tag child) then
        (case text_of child of
           None \<Rightarrow> Inr (point\<lparr>elevation_meters := None\<rparr>)
         | Some t \<Rightarrow>
             if t = [] then Inr (point\<lparr>elevation_meters := None\<rparr>)
             else (case py_float R t of
                     None \<Rightarrow> Inl ValueError
                   | Some x \<Rightarrow> Inr (point\<lparr>elevation_meters := Some x\<rparr>)))
      else if contains ''time'' (tag child) \<and> truthy_str (text_of child) then
        (case text_of child of
           None \<Rightarrow> Inr point
         | Some t \<Rightarrow>
             (case fromisoformat R (replace_Z_utc t) of
                None \<Rightarrow> Inr point
              | Some d \<Rightarrow> Inr (point\<lparr>timestamp := d\<rparr>)))
      else Inr point)"

fun process_children :: "runtime \<Rightarrow> element list \<Rightarrow> gps_point \<Rightarrow> error + gps_point" where
  "process_children R [] point = Inr point"
| "process_children R (c # cs) point =
     (case child_step R c point of
        Inl e \<Rightarrow> Inl e
      | Inr point' \<Rightarrow> process_children R cs point')"

text \<open>The sample built for a track-point whose attributes \<open>lat\<close> and \<open>lon\<close> are given.\<close>

definition trkpt_point :: "runtime \<Rightarrow> string \<Rightarrow> string \<Rightarrow> element list \<Rightarrow> error + gps_point" where
  "trkpt_point R lat lon cs =
     (case py_float R lat of
        None \<Rightarrow> Inl ValueError
      | Some la \<Rightarrow>
          (case py_float R lon of
             None \<Rightarrow> Inl ValueError
           | Some lo \<Rightarrow>
               process_children R cs
                 \<lparr>latitude = la, longitude = lo, elevation_meters = None, speed_mps = None,
                  timestamp = datetime_now R\<rparr>))"

text \<open>
  The loop over \<^verbatim>\<open>root.iter()\<close>, with the list collected so far. An exception leaves
  the loop; the handler of \<^verbatim>\<open>parse_gpx_simple\<close> then returns what was collected.
\<close>

fun trkpt_loop :: "runtime \<Rightarrow> element list \<Rightarrow> gps_point list \<Rightarrow> gps_point list \<times> error option" where
  "trkpt_loop R [] gps_points = (gps_points, None)"
| "trkpt_loop R (trkpt # rest) gps_points =
     (if contains ''trkpt'' (tag trkpt) then
        (let lat = map_of (attrib trkpt) ''lat''; lon = map_of (attrib trkpt) ''lon''
         in if truthy_str lat \<and> truthy_str lon then
              (case trkpt_point R (the lat) (the lon) (children trkpt) of
                 Inl e \<Rightarrow> (gps_points, Some e)
               | Inr point \<Rightarrow> trkpt_loop R rest (gps_points @ [point]))
            else trkpt_loop R rest gps_points)
      else trkpt_loop R rest gps_points)"

definition parse_gpx_simple :: "runtime \<Rightarrow> string \<Rightarrow> gps_point list \<times> log_entry list" where
  "parse_gpx_simple R gpx_data =
     (case et_fromstring R gpx_data of
        None \<Rightarrow> ([], [(WARNING, ''Error parsing GPX data'')])
      | Some root_el \<Rightarrow>
          (case trkpt_loop R (iter_el root_el) [] of
             (gps_points, None) \<Rightarrow> (gps_points, [])
           | (gps_points, Some e) \<Rightarrow> (gps_points, [(WARNING, ''Error parsing GPX data'')])))"

section \<open>The remote service and the normalizer\<close>

text \<open>
  The client of the remote service is not part of this repository: its three calls are
  taken as functions that return a value or raise. \<^verbatim>\<open>GarminConnectSync\<close> keeps the
  client (absent before \<^verbatim>\<open>login\<close>) and the flag \<^verbatim>\<open>logged_in\<close>.
\<close>

record garmin_api =
  get_activities :: "int \<Rightarrow> int \<Rightarrow> error + pyval list"
  get_activity :: "pyval \<Rightarrow> error + pyval"
  download_activity :: "pyval \<Rightarrow> error + string"

record garmin_sync =
  client :: "garmin_api option"
  logged_in :: bool

text \<open>
  The dictionary \<^verbatim>\<open>formatted_data\<close>: the nine columns of a run, then the key
  \<^verbatim>\<open>gps_points\<close> that \<^verbatim>\<open>main\<close> pops before the insert.
\<close>

record run_data =
  activity_id :: string
  start_time :: datetime
  end_time :: "datetime option"
  distance_meters :: pyval
  duration_seconds :: pyval
  avg_pace_seconds_per_km :: pyval
  calories :: pyval
  avg_heart_rate :: pyval
  max_heart_rate :: pyval

record formatted_data = run_data +
  gps_points :: "gps_point list"

definition get_gps_data :: "runtime \<Rightarrow> garmin_sync \<Rightarrow> pyval \<Rightarrow> gps_point list \<times> log_entry list" where
  "get_gps_data R G aid =
     (case client G of
        None \<Rightarrow> ([], [(WARNING, ''Could not retrieve GPS data'')])
      | Some c \<Rightarrow>
          (case download_activity c aid of
             Inl e \<Rightarrow> ([], [(WARNING, ''Could not retrieve GPS data'')])
           | Inr gpx_data \<Rightarrow>
               (case parse_gpx_simple R gpx_data of
                  (pts, lg) \<Rightarrow> (pts, lg @ [(INFO, ''Retrieved GPS points'')]))))"

text \<open>\<^verbatim>\<open>datetime.fromisoformat(start_time_str.replace('Z', ''))\<close> on a true object.\<close>

definition parse_start :: "runtime \<Rightarrow> pyval \<Rightarrow> error + datetime" where
  "parse_start R start_time_str =
     (case start_time_str of
        PStr s \<Rightarrow>
          (case fromisoformat R (replace_Z_empty s) of
             None \<Rightarrow> Inl ValueError
           | Some d \<Rightarrow> Inr d)
      | _ \<Rightarrow> Inl AttributeError)"

definition start_time_of :: "runtime \<Rightarrow> pyval \<Rightarrow> error + datetime" where
  "start_time_of R start_time_str =
     (if truthy start_time_str then parse_start R start_time_str else Inr (datetime_now R))"

text \<open>\<^verbatim>\<open>start_time + timedelta(seconds=duration_seconds) if duration_seconds else None\<close>\<close>

definition end_time_of :: "datetime \<Rightarrow> pyval \<Rightarrow> error + datetime option" where
  "end_time_of st duration =
     (if truthy duration then
        bindE (timedelta_seconds duration) (\<lambda>delta. bindE (dt_add st delta) (\<lambda>e. Inr (Some e)))
      else Inr None)"

text \<open>
  The message of the last \<^verbatim>\<open>logging.info\<close> holds \<^verbatim>\<open>round(distance / 1000, 2)\<close> and
  \<^verbatim>\<open>round(duration / 60, 2)\<close>: a TypeError unless both are numbers, an OverflowError for
  an integer beyond the range of the floats.
\<close>

definition summary_line :: "pyval \<Rightarrow> pyval \<Rightarrow> error + unit" where
  "summary_line distance duration =
     bindE (truediv distance (PInt 1000)) (\<lambda>km.
     bindE (py_round2 km) (\<lambda>a.
     bindE (truediv duration (PInt 60)) (\<lambda>mins.
     bindE (py_round2 mins) (\<lambda>b. Inr ()))))"

text \<open>The dictionary built before the track is fetched, with the raw identifier.\<close>

definition format_fields :: "runtime \<Rightarrow> pyval \<Rightarrow> error + (pyval \<times> run_data)" where
  "format_fields R summary_activity =
     bindE (dict_get summary_activity ''startTimeLocal'' (PStr [])) (\<lambda>start_time_str.
     bindE (start_time_of R start_time_str) (\<lambda>st.
     bindE (dict_get summary_activity ''duration'' (PInt 0)) (\<lambda>duration.
     bindE (end_time_of st duration) (\<lambda>et.
     bindE (dict_get summary_activity ''distance'' (PInt 0)) (\<lambda>distance.
     bindE (calculate_pace distance duration) (\<lambda>avg_pace.
     bindE (dict_get summary_activity ''activityId'' PNone) (\<lambda>aid.
     bindE (dict_get summary_activity ''calories'' (PInt 0)) (\<lambda>cal.
     bindE (dict_get summary_activity ''averageHR'' PNone) (\<lambda>ahr.
     bindE (dict_get summary_activity ''maxHR'' PNone) (\<lambda>mhr.
       Inr (aid,
         \<lparr>activity_id = py_str R aid, start_time = st, end_time = et,
          distance_meters = distance, duration_seconds = duration,
          avg_pace_seconds_per_km = avg_pace, calories = cal,
          avg_heart_rate = ahr, max_heart_rate = mhr\<rparr>)))))))))))"

text \<open>
  \<^verbatim>\<open>format_activity_data\<close>: every exception inside is caught, logged as an error and
  turned into \<^verbatim>\<open>None\<close>. The detailed record is a parameter that the body never reads.
\<close>

definition format_activity_data ::
  "runtime \<Rightarrow> garmin_sync \<Rightarrow> pyval \<Rightarrow> pyval \<Rightarrow> formatted_data option \<times> log_entry list" where
  "format_activity_data R G detailed_activity summary_activity =
     (case format_fields R summary_activity of
        Inl e \<Rightarrow> (None, [(ERROR, ''Error formatting activity data'')])
      | Inr (aid, fd) \<Rightarrow>
          (case get_gps_data R G aid of
             (pts, lg) \<Rightarrow>
               (case summary_line (distance_meters fd) (duration_seconds fd) of
                  Inl e \<Rightarrow> (None, lg @ [(ERROR, ''Error formatting activity data'')])
                | Inr u \<Rightarrow>
                    (Some (run_data.extend fd \<lparr>gps_points = pts\<rparr>),
                     lg @ [(INFO, ''Formatted activity data for run'')]))))"

section \<open>GarminConnectSync.get_latest_run\<close>

text \<open>
  \<^verbatim>\<open>
  activity_type = activity.get('activityType', {})
  if activity_type and activity_type.get('typeKey') == 'running':
  \<close>
\<close>

definition is_running :: "pyval \<Rightarrow> error + bool" where
  "is_running activity =
     bindE (dict_get activity ''activityType'' (PDict [])) (\<lambda>activity_type.
       if truthy activity_type then
         bindE (dict_get activity_type ''typeKey'' PNone) (\<lambda>k. Inr (k = PStr ''running''))
       else Inr False)"

fun filter_running :: "pyval list \<Rightarrow> error + pyval list" where
  "filter_running [] = Inr []"
| "filter_running (activity # rest) =
     bindE (is_running activity) (\<lambda>b.
     bindE (filter_running rest) (\<lambda>r. Inr (if b then activity # r else r)))"

text \<open>\<^verbatim>\<open>d[key]\<close>: KeyError on a missing key.\<close>

fun dict_item :: "pyval \<Rightarrow> string \<Rightarrow> error + pyval" where
  "dict_item (PDict kvs) k = (case map_of kvs k of None \<Rightarrow> Inl KeyError | Some v \<Rightarrow> Inr v)"
| "dict_item _ k = Inl TypeError"

definition get_latest_run :: "runtime \<Rightarrow> garmin_sync \<Rightarrow> formatted_data option \<times> log_entry list" where
  "get_latest_run R G =
     (if \<not> logged_in G then (None, [(ERROR, ''Not logged into Garmin Connect'')])
      else
        (case client G of
           None \<Rightarrow> (None, [(ERROR, ''Error getting latest run'')])
         | Some c \<Rightarrow>
        (case get_activities c 0 100 of
           Inl e \<Rightarrow> (None, [(ERROR, ''Error getting latest run'')])
         | Inr activities \<Rightarrow>
        (case filter_running activities of
           Inl e \<Rightarrow>
             (None, [(INFO, ''Found total activities''), (ERROR, ''Error getting latest run'')])
         | Inr [] \<Rightarrow>
             (None, [(INFO, ''Found total activities''), (INFO, ''Found running activities''),
                     (INFO, ''No running activities found'')])
         | Inr (latest_run # others) \<Rightarrow>
        (case dict_item latest_run ''activityId'' of
           Inl e \<Rightarrow>
             (None, [(INFO, ''Found total activities''), (INFO, ''Found running activities''),
                     (ERROR, ''Error getting latest run'')])
         | Inr aid \<Rightarrow>
        (case get_activity c aid of
           Inl e \<Rightarrow>
             (None, [(INFO, ''Found total activities''), (INFO, ''Found running activities''),
                     (INFO, ''Getting detailed data for activity''),
                     (ERROR, ''Error getting latest run'')])
         | Inr detailed_activity \<Rightarrow>
        (case format_activity_data R G detailed_activity latest_run of
           (r, lg) \<Rightarrow>
             (r, [(INFO, ''Found total activities''), (INFO, ''Found running activities''),
                  (INFO, ''Getting detailed data for activity'')] @ lg))))))))"

section \<open>GarminConnectSync.get_activities_since\<close>

text \<open>
  One pass of the loop:
  \<^verbatim>\<open>
  start_time_str = activity.get('startTimeLocal', '')
  if start_time_str:
      start_time = datetime.fromisoformat(start_time_str.replace('Z', ''))
      if start_time > cutoff_date:
          recent_activities.append(activity)
  \<close>
  The result says whether the activity is appended.
\<close>

definition is_recent :: "runtime \<Rightarrow> datetime \<Rightarrow> pyval \<Rightarrow> error + bool" where
  "is_recent R cutoff_date activity =
     bindE (dict_get activity ''startTimeLocal'' (PStr [])) (\<lambda>start_time_str.
       if truthy start_time_str then
         bindE (parse_start R start_time_str) (\<lambda>st. dt_gt st cutoff_date)
       else Inr False)"

fun filter_recent :: "runtime \<Rightarrow> datetime \<Rightarrow> pyval list \<Rightarrow> error + pyval list" where
  "filter_recent R cutoff_date [] = Inr []"
| "filter_recent R cutoff_date (activity # rest) =
     bindE (is_recent R cutoff_date activity) (\<lambda>b.
     bindE (filter_recent R cutoff_date rest) (\<lambda>r. Inr (if b then activity # r else r)))"

definition get_activities_since ::
  "runtime \<Rightarrow> garmin_sync \<Rightarrow> int \<Rightarrow> pyval list \<times> log_entry list" where
  "get_activities_since R G days_back =
     (if \<not> logged_in G then ([], [(ERROR, ''Not logged into Garmin Connect'')])
      else
        (case client G of
           None \<Rightarrow> ([], [(ERROR, ''Error getting recent activities'')])
         | Some c \<Rightarrow>
        (case get_activities c 0 (days_back * 10) of
           Inl e \<Rightarrow> ([], [(ERROR, ''Error getting recent activities'')])
         | Inr activities \<Rightarrow>
        (case bindE (timedelta_days days_back) (\<lambda>delta. dt_add (datetime_now R) (- delta)) of
           Inl e \<Rightarrow> ([], [(ERROR, ''Error getting recent activities'')])
         | Inr cutoff_date \<Rightarrow>
        (case filter_recent R cutoff_date activities of
           Inl e \<Rightarrow> ([], [(ERROR, ''Error getting recent activities'')])
         | Inr recent_activities \<Rightarrow> (recent_activities, []))))))"

section \<open>DatabaseManager\<close>

text \<open>
  The store holds the two tables of \<^verbatim>\<open>create_tables\<close> and their \<^verbatim>\<open>SERIAL\<close> sequences.
  The column \<^verbatim>\<open>sync_timestamp\<close>, filled by the clock of the server, is left out. The
  constraint \<^verbatim>\<open>activity_id VARCHAR(50) UNIQUE\<close> is checked by the insert. Each method
  takes a flag saying that the driver raises for a reason that is not modelled (a lost
  connection, a value that a column type rejects); the two inserts also take the number
  of sequence values that the server has handed out before such a failure, which a
  rollback does not give back. The theorems hold for every value of the flags and numbers
  they do not fix. Every method catches its exception, rolls back and logs.
\<close>

record run_row =
  row_id :: nat
  row :: run_data

record gps_row =
  gps_id :: nat
  run_id :: nat
  point :: gps_point

record database =
  tables :: bool
  runs :: "run_row list"
  gps_rows :: "gps_row list"
  runs_seq :: nat
  gps_seq :: nat

definition create_tables :: "bool \<Rightarrow> database \<Rightarrow> database \<times> log_entry list" where
  "create_tables fault db =
     (if fault then (db, [(ERROR, ''Error creating tables'')])
      else (db\<lparr>tables := True\<rparr>, [(INFO, ''Database tables created/verified'')]))"

text \<open>\<^verbatim>\<open>SELECT id FROM runs WHERE activity_id = %s\<close>, then \<^verbatim>\<open>fetchone()\<close>.\<close>

definition get_activity_by_id ::
  "bool \<Rightarrow> database \<Rightarrow> string \<Rightarrow> nat option \<times> log_entry list" where
  "get_activity_by_id fault db aid =
     (if fault \<or> \<not> tables db then (None, [(ERROR, ''Error checking for existing activity'')])
      else (map_option row_id (find (\<lambda>r. activity_id (row r) = aid) (runs db)), []))"

text \<open>
  \<^verbatim>\<open>INSERT INTO runs ... RETURNING id\<close>. A statement that the server rejects for the
  unique constraint has still taken a value from the sequence.
\<close>

definition insert_run ::
  "bool \<Rightarrow> nat \<Rightarrow> database \<Rightarrow> run_data \<Rightarrow> database \<times> nat option \<times> log_entry list" where
  "insert_run fault consumed db rd =
     (if \<not> tables db then (db, None, [(ERROR, ''Error inserting run'')])
      else if fault then
        (db\<lparr>runs_seq := runs_seq db + consumed\<rparr>, None, [(ERROR, ''Error inserting run'')])
      else if \<exists>r \<in> set (runs db). activity_id (row r) = activity_id rd then
        (db\<lparr>runs_seq := Suc (runs_seq db)\<rparr>, None, [(ERROR, ''Error inserting run'')])
      else
        (db\<lparr>runs := runs db @ [\<lparr>row_id = runs_seq db, row = rd\<rparr>],
            runs_seq := Suc (runs_seq db)\<rparr>,
         Some (runs_seq db), [(INFO, ''Run inserted'')]))"

text \<open>The rows of one batch, numbered from the sequence.\<close>

fun number_points :: "nat \<Rightarrow> nat \<Rightarrow> gps_point list \<Rightarrow> gps_row list" where
  "number_points n rid [] = []"
| "number_points n rid (p # ps) =
     \<lparr>gps_id = n, run_id = rid, point = p\<rparr> # number_points (Suc n) rid ps"

text \<open>
  One insert per point and one commit after the loop: the batch is stored whole or not
  at all. The foreign key needs the run to be there: without it the first insert is
  rejected, after it has taken a value from the sequence.
\<close>

definition insert_gps_points ::
  "bool \<Rightarrow> nat \<Rightarrow> database \<Rightarrow> nat \<Rightarrow> gps_point list \<Rightarrow> database \<times> log_entry list" where
  "insert_gps_points fault consumed db rid pts =
     (if \<not> tables db then (db, [(ERROR, ''Error inserting GPS points'')])
      else if fault then
        (db\<lparr>gps_seq := gps_seq db + consumed\<rparr>, [(ERROR, ''Error inserting GPS points'')])
      else if pts \<noteq> [] \<and> rid \<notin> row_id ` set (runs db) then
        (db\<lparr>gps_seq := Suc (gps_seq db)\<rparr>, [(ERROR, ''Error inserting GPS points'')])
      else
        (db\<lparr>gps_rows := gps_rows db @ number_points (gps_seq db) rid pts,
            gps_seq := gps_seq db + length pts\<rparr>,
         [(INFO, ''Inserted GPS points for run'')]))"

section \<open>main\<close>

text \<open>
  What one run meets outside the program: whether the credentials are configured,
  whether the database connects, which database calls fail and how many sequence values
  a failing insert has taken, whether the login succeeds, and the remote service behind
  the client.
\<close>

record session =
  credentials_set :: bool
  db_connects :: bool
  create_fault :: bool
  select_fault :: bool
  insert_fault :: bool
  insert_consumed :: nat
  gps_fault :: bool
  gps_consumed :: nat
  login_succeeds :: bool
  service :: garmin_api

definition login :: "session \<Rightarrow> garmin_sync \<times> bool \<times> log_entry list" where
  "login S =
     (if login_succeeds S then
        (\<lparr>client = Some (service S), logged_in = True\<rparr>, True,
         [(INFO, ''Successfully logged into Garmin Connect'')])
      else (\<lparr>client = Some (service S), logged_in = False\<rparr>, False, [(ERROR, ''Login failed'')]))"

text \<open>
  The part of \<^verbatim>\<open>main\<close> after a normalized activity was obtained: the duplicate check,
  then the writes.
  \<^verbatim>\<open>
  existing_activity = db.get_activity_by_id(activity_data['activity_id'])
  if existing_activity:
      logging.info(...already exists in database); return
  gps_points = activity_data.pop('gps_points', [])
  run_id = db.insert_run(activity_data)
  if run_id and gps_points:
      db.insert_gps_points(run_id, gps_points)
  \<close>
\<close>

definition store_activity ::
  "session \<Rightarrow> database \<Rightarrow> formatted_data \<Rightarrow> database \<times> log_entry list" where
  "store_activity S db activity_data =
     (case get_activity_by_id (select_fault S) db (activity_id activity_data) of
        (Some existing_activity, lg) \<Rightarrow>
          (db, lg @ [(INFO, ''Activity already exists in database'')])
      | (None, lg) \<Rightarrow>
          (case insert_run (insert_fault S) (insert_consumed S) db (run_data.truncate activity_data) of
             (db', rid, lg') \<Rightarrow>
               (case rid of
                  None \<Rightarrow> (db', lg @ lg' @ [(INFO, ''Sync completed successfully'')])
                | Some r \<Rightarrow>
                    if r \<noteq> 0 \<and> gps_points activity_data \<noteq> [] then
                      (case insert_gps_points (gps_fault S) (gps_consumed S) db' r
                              (gps_points activity_data) of
                         (db'', lg'') \<Rightarrow>
                           (db'', lg @ lg' @ lg'' @
                              [(INFO, ''Stored GPS points''),
                               (INFO, ''Sync completed successfully'')]))
                    else (db', lg @ lg' @ [(INFO, ''Sync completed successfully'')]))))"

definition main :: "runtime \<Rightarrow> session \<Rightarrow> database \<Rightarrow> database \<times> log_entry list" where
  "main R S db =
     (if \<not> credentials_set S then
        (db, [(INFO, ''Starting Garmin Connect sync process...''),
              (ERROR, ''Garmin Connect credentials not configured in .env file'')])
      else if \<not> db_connects S then
        (db, [(INFO, ''Starting Garmin Connect sync process...''),
              (ERROR, ''Database connection failed''),
              (ERROR, ''Failed to connect to database'')])
      else
        (case create_tables (create_fault S) db of
           (db1, lg1) \<Rightarrow>
        (case login S of
           (G, ok, lg2) \<Rightarrow>
             if \<not> ok then
               (db1, [(INFO, ''Starting Garmin Connect sync process...''),
                      (INFO, ''Database connection established'')] @ lg1 @ lg2 @
                     [(ERROR, ''Failed to login to Garmin Connect''),
                      (INFO, ''Database connection closed'')])
             else
               (case get_latest_run R G of
                  (None, lg3) \<Rightarrow>
                    (db1, [(INFO, ''Starting Garmin Connect sync process...''),
                           (INFO, ''Database connection established'')] @ lg1 @ lg2 @ lg3 @
                          [(INFO, ''No new running activities found''),
                           (INFO, ''Database connection closed'')])
                | (Some activity_data, lg3) \<Rightarrow>
                    (case store_activity S db1 activity_data of
                       (db2, lg4) \<Rightarrow>
                         (db2, [(INFO, ''Starting Garmin Connect sync process...''),
                                (INFO, ''Database connection established'')] @ lg1 @ lg2 @ lg3 @
                               lg4 @ [(INFO, ''Database connection closed'')]))))))"

section \<open>A runtime for the examples\<close>

text \<open>
  The examples below run on one runtime. Its \<^verbatim>\<open>float\<close> reads plain decimal numerals
  (an optional sign, digits, an optional point and digits) and rounds them to a float, its \<^verbatim>\<open>fromisoformat\<close> reads
  \<^verbatim>\<open>YYYY-MM-DD\<close> and \<^verbatim>\<open>YYYY-MM-DD?HH:MM:SS\<close> with any one separator, and its
  \<^verbatim>\<open>ET.fromstring\<close> knows the documents of the examples. The examples use it only on
  such strings and on strings that Python rejects as well.
\<close>

definition is_digit :: "char \<Rightarrow> bool" where
  "is_digit c = (c \<in> set ''0123456789'')"

definition digits_value :: "string \<Rightarrow> int" where
  "digits_value s = foldl (\<lambda>a c. 10 * a + (of_char c - 48)) 0 s"

definition float_unsigned :: "string \<Rightarrow> rat option" where
  "float_unsigned s =
     (let ip = takeWhile (\<lambda>c. c \<noteq> CHR ''.'') s;
          fp = drop 1 (dropWhile (\<lambda>c. c \<noteq> CHR ''.'') s)
      in if list_all is_digit ip \<and> list_all is_digit fp \<and> (ip \<noteq> [] \<or> fp \<noteq> []) then
           Some (of_int (digits_value ip) + of_int (digits_value fp) / 10 ^ length fp)
         else None)"

definition float_decimal :: "string \<Rightarrow> rat option" where
  "float_decimal s =
     (case s of
        [] \<Rightarrow> None
      | c # r \<Rightarrow>
          if c = CHR ''-'' then map_option uminus (float_unsigned r)
          else if c = CHR ''+'' then float_unsigned r
          else float_unsigned s)"

definition is_leap :: "int \<Rightarrow> bool" where
  "is_leap y = (y mod 4 = 0 \<and> (y mod 100 \<noteq> 0 \<or> y mod 400 = 0))"

definition days_in_month :: "int \<Rightarrow> int \<Rightarrow> int" where
  "days_in_month y m =
     (if m = 2 then (if is_leap y then 29 else 28)
      else if m \<in> {4, 6, 9, 11} then 30 else 31)"

text \<open>Days from 0001-01-01 to the first day of the year, and to the first of the month.\<close>

definition days_before_year :: "int \<Rightarrow> int" where
  "days_before_year y = (y - 1) * 365 + (y - 1) div 4 - (y - 1) div 100 + (y - 1) div 400"

definition days_before_month :: "int \<Rightarrow> int \<Rightarrow> int" where
  "days_before_month y m = sum_list (map (days_in_month y) [1..m - 1])"

definition civil_us :: "int \<Rightarrow> int \<Rightarrow> int \<Rightarrow> int \<Rightarrow> int \<Rightarrow> int \<Rightarrow> datetime option" where
  "civil_us y m d h mi sec =
     (if 1 \<le> y \<and> y \<le> 9999 \<and> 1 \<le> m \<and> m \<le> 12 \<and> 1 \<le> d \<and> d \<le> days_in_month y m
         \<and> 0 \<le> h \<and> h < 24 \<and> 0 \<le> mi \<and> mi < 60 \<and> 0 \<le> sec \<and> sec < 60 then
        Some \<lparr>us = ((((days_before_year y + days_before_month y m + (d - 1)) * 24 + h) * 60
                         + mi) * 60 + sec) * 1000000,
              tz = None\<rparr>
      else None)"

definition field :: "string \<Rightarrow> nat \<Rightarrow> nat \<Rightarrow> int option" where
  "field s i n =
     (let f = take n (drop i s)
      in if length f = n \<and> list_all is_digit f then Some (digits_value f) else None)"

definition iso_date_ok :: "string \<Rightarrow> bool" where
  "iso_date_ok s = (take 1 (drop 4 s) = ''-'' \<and> take 1 (drop 7 s) = ''-'')"

definition iso_basic :: "string \<Rightarrow> datetime option" where
  "iso_basic s =
     (if length s = 10 \<and> iso_date_ok s then
        (case (field s 0 4, field s 5 2, field s 8 2) of
           (Some y, Some m, Some d) \<Rightarrow> civil_us y m d 0 0 0
         | _ \<Rightarrow> None)
      else if length s = 19 \<and> iso_date_ok s \<and> take 1 (drop 13 s) = '':''
              \<and> take 1 (drop 16 s) = '':'' then
        (case (field s 0 4, field s 5 2, field s 8 2) of
           (Some y, Some m, Some d) \<Rightarrow>
             (case (field s 11 2, field s 14 2, field s 17 2) of
                (Some h, Some mi, Some sec) \<Rightarrow> civil_us y m d h mi sec
              | _ \<Rightarrow> None)
         | _ \<Rightarrow> None)
      else None)"

text \<open>A track of three points, the second without a longitude, and its parse tree.\<close>

definition ex_gpx :: string where
  "ex_gpx = ''<gpx><trk><trkseg><trkpt lat='47.1' lon='8.1'><ele>500.5</ele><time>2024-01-01T06:00:00</time></trkpt><trkpt lat='47.2'><ele>501</ele></trkpt><trkpt lat='47.3' lon='8.3'></trkpt></trkseg></trk></gpx>''"

definition ex_gpx_tree :: element where
  "ex_gpx_tree =
     Element ''gpx'' [] None
       [Element ''trk'' [] None
          [Element ''trkseg'' [] None
             [Element ''trkpt'' [(''lat'', ''47.1''), (''lon'', ''8.1'')] None
                [Element ''ele'' [] (Some ''500.5'') [],
                 Element ''time'' [] (Some ''2024-01-01T06:00:00'') []],
              Element ''trkpt'' [(''lat'', ''47.2'')] None
                [Element ''ele'' [] (Some ''501'') []],
              Element ''trkpt'' [(''lat'', ''47.3''), (''lon'', ''8.3'')] None []]]]"

text \<open>A track whose first point has an elevation that is not a number.\<close>

definition ex_gpx_bad_ele :: string where
  "ex_gpx_bad_ele = ''<gpx><trkpt lat='47.1' lon='8.1'><ele>n/a</ele></trkpt><trkpt lat='47.2' lon='8.2'><ele>501</ele></trkpt></gpx>''"

definition ex_gpx_bad_ele_tree :: element where
  "ex_gpx_bad_ele_tree =
     Element ''gpx'' [] None
       [Element ''trkpt'' [(''lat'', ''47.1''), (''lon'', ''8.1'')] None
          [Element ''ele'' [] (Some ''n/a'') []],
        Element ''trkpt'' [(''lat'', ''47.2''), (''lon'', ''8.2'')] None
          [Element ''ele'' [] (Some ''501'') []]]"

text \<open>
  A track-point whose longitude attribute is empty, and an element that is no track-point
  but has \<^verbatim>\<open>trkpt\<close> inside its name.
\<close>

definition ex_gpx_odd :: string where
  "ex_gpx_odd =
     ''<gpx><trkpt lat='47.1' lon='' @ [CHR 0x27, CHR 0x27]
     @ ''></trkpt><nottrkptatall lat='1' lon='2'></nottrkptatall></gpx>''"

definition ex_gpx_odd_tree :: element where
  "ex_gpx_odd_tree =
     Element ''gpx'' [] None
       [Element ''trkpt'' [(''lat'', ''47.1''), (''lon'', [])] None [],
        Element ''nottrkptatall'' [(''lat'', ''1''), (''lon'', ''2'')] None []]"

definition ex_documents :: "(string \<times> element) list" where
  "ex_documents =
     [(ex_gpx, ex_gpx_tree), (ex_gpx_bad_ele, ex_gpx_bad_ele_tree), (ex_gpx_odd, ex_gpx_odd_tree)]"

text \<open>The clock of the examples reads 2024-01-08T12:00:00.\<close>

definition ex_now :: int where
  "ex_now = 63840312000000000"

definition ex_runtime :: runtime where
  "ex_runtime =
     \<lparr>fromisoformat = iso_basic, et_fromstring = map_of ex_documents,
      py_float = (\<lambda>s. map_option rnd (float_decimal s)), repr_other = (\<lambda>v. []), now = ex_now\<rparr>"

text \<open>
  The summary record of the end-to-end scenario, with heart rates and calories; the same
  record as the service sends it when it reports neither; and three damaged variants.
\<close>

definition ex_summary :: pyval where
  "ex_summary =
     PDict [(''activityId'', PInt 42), (''activityType'', PDict [(''typeKey'', PStr ''running'')]),
            (''distance'', PInt 10000), (''duration'', PInt 3000),
            (''startTimeLocal'', PStr ''2024-01-01T06:00:00''),
            (''calories'', PInt 650), (''averageHR'', PInt 150), (''maxHR'', PInt 175)]"

definition ex_summary_sparse :: pyval where
  "ex_summary_sparse =
     PDict [(''activityId'', PInt 42), (''activityType'', PDict [(''typeKey'', PStr ''running'')]),
            (''distance'', PInt 10000), (''duration'', PInt 3000),
            (''startTimeLocal'', PStr ''2024-01-01T06:00:00'')]"

definition ex_summary_no_start :: pyval where
  "ex_summary_no_start =
     PDict [(''activityId'', PInt 42), (''activityType'', PDict [(''typeKey'', PStr ''running'')]),
            (''distance'', PInt 10000), (''duration'', PInt 3000)]"

definition ex_summary_bad_start :: pyval where
  "ex_summary_bad_start =
     PDict [(''activityId'', PInt 42), (''activityType'', PDict [(''typeKey'', PStr ''running'')]),
            (''distance'', PInt 10000), (''duration'', PInt 3000),
            (''startTimeLocal'', PStr ''not-a-date'')]"

definition ex_summary_no_id :: pyval where
  "ex_summary_no_id =
     PDict [(''activityType'', PDict [(''typeKey'', PStr ''running'')]),
            (''distance'', PInt 10000), (''duration'', PInt 3000),
            (''startTimeLocal'', PStr ''2024-01-01T06:00:00'')]"

text \<open>A service that lists the given activities and has no track to download.\<close>

definition ex_service :: "pyval list \<Rightarrow> garmin_api" where
  "ex_service listing =
     \<lparr>get_activities = (\<lambda>start limit. Inr (take (nat limit) (drop (nat start) listing))),
      get_activity = (\<lambda>aid. Inr (PDict [(''activityId'', aid)])),
      download_activity = (\<lambda>aid. Inl ClientError)\<rparr>"

definition ex_sync :: "pyval list \<Rightarrow> garmin_sync" where
  "ex_sync listing = \<lparr>client = Some (ex_service listing), logged_in = True\<rparr>"

text \<open>
  Activities one, ten and forty days before the clock of the examples, a ride one day
  before it, and a run without a start time.
\<close>

definition ex_run_1 :: pyval where
  "ex_run_1 =
     PDict [(''activityId'', PInt 1), (''activityType'', PDict [(''typeKey'', PStr ''running'')]),
            (''startTimeLocal'', PStr ''2024-01-07T12:00:00'')]"

definition ex_run_10 :: pyval where
  "ex_run_10 =
     PDict [(''activityId'', PInt 2), (''activityType'', PDict [(''typeKey'', PStr ''running'')]),
            (''startTimeLocal'', PStr ''2023-12-29T12:00:00'')]"

definition ex_run_40 :: pyval where
  "ex_run_40 =
     PDict [(''activityId'', PInt 3), (''activityType'', PDict [(''typeKey'', PStr ''running'')]),
            (''startTimeLocal'', PStr ''2023-11-29T12:00:00'')]"

definition ex_ride_1 :: pyval where
  "ex_ride_1 =
     PDict [(''activityId'', PInt 4), (''activityType'', PDict [(''typeKey'', PStr ''cycling'')]),
            (''startTimeLocal'', PStr ''2024-01-07T12:00:00'')]"

definition ex_run_no_start :: pyval where
  "ex_run_no_start =
     PDict [(''activityId'', PInt 5), (''activityType'', PDict [(''typeKey'', PStr ''running'')])]"

text \<open>A run in which nothing fails, and a store before the first run.\<close>

definition ex_session :: session where
  "ex_session =
     \<lparr>credentials_set = True, db_connects = True, create_fault = False, select_fault = False,
      insert_fault = False, insert_consumed = 0, gps_fault = False, gps_consumed = 0,
      login_succeeds = True,
      service = ex_service [ex_summary_sparse]\<rparr>"

definition ex_db :: database where
  "ex_db = \<lparr>tables = False, runs = [], gps_rows = [], runs_seq = 1, gps_seq = 1\<rparr>"

section \<open>Notions used to state the properties\<close>

text \<open>A track-point that carries both coordinate attributes.\<close>

definition carries_coords :: "element \<Rightarrow> bool" where
  "carries_coords e =
     (contains ''trkpt'' (tag e) \<and> map_of (attrib e) ''lat'' \<noteq> None
      \<and> map_of (attrib e) ''lon'' \<noteq> None)"

text \<open>
  An element that the parser retains: its tag contains \<^verbatim>\<open>trkpt\<close> and its attributes
  \<^verbatim>\<open>lat\<close> and \<^verbatim>\<open>lon\<close> are present and not empty.
\<close>

definition retained :: "element \<Rightarrow> bool" where
  "retained e =
     (contains ''trkpt'' (tag e) \<and> truthy_str (map_of (attrib e) ''lat'')
      \<and> truthy_str (map_of (attrib e) ''lon''))"

text \<open>
  The texts of a retained element convert to floats: both coordinates, and the text of
  each elevation child that has one.
\<close>

definition numeric_ele :: "runtime \<Rightarrow> element \<Rightarrow> bool" where
  "numeric_ele R c =
     (if contains ''ele'' (tag c) then
        (case text_of c of None \<Rightarrow> True | Some t \<Rightarrow> t = [] \<or> py_float R t \<noteq> None)
      else True)"

definition converts :: "runtime \<Rightarrow> element \<Rightarrow> bool" where
  "converts R e =
     (case (map_of (attrib e) ''lat'', map_of (attrib e) ''lon'') of
        (Some la, Some lo) \<Rightarrow>
          py_float R la \<noteq> None \<and> py_float R lo \<noteq> None
          \<and> list_all (numeric_ele R) (children e)
      | _ \<Rightarrow> True)"

text \<open>The sample \<open>p\<close> is the one built from the track-point \<open>e\<close>, with its coordinates.\<close>

definition sample_at :: "runtime \<Rightarrow> element \<Rightarrow> gps_point \<Rightarrow> bool" where
  "sample_at R e p =
     (case (map_of (attrib e) ''lat'', map_of (attrib e) ''lon'') of
        (Some la, Some lo) \<Rightarrow>
          py_float R la = Some (latitude p) \<and> py_float R lo = Some (longitude p)
          \<and> trkpt_point R la lo (children e) = Inr p
      | _ \<Rightarrow> False)"

text \<open>
  An activity of a listing whose start time the batch query can read: a dictionary whose
  start-time string is missing, or false, or parses to a naive date and time.
\<close>

definition start_ok :: "runtime \<Rightarrow> pyval \<Rightarrow> bool" where
  "start_ok R a =
     (case a of
        PDict kvs \<Rightarrow>
          (case map_of kvs ''startTimeLocal'' of
             None \<Rightarrow> True
           | Some (PStr s) \<Rightarrow>
               s = [] \<or> (case fromisoformat R (replace_Z_empty s) of
                           None \<Rightarrow> False
                         | Some d \<Rightarrow> tz d = None)
           | Some v \<Rightarrow> \<not> truthy v)
      | _ \<Rightarrow> False)"

text \<open>
  An activity whose start-time string is not empty and parses to a time later than the
  time that is \<open>u\<close> microseconds after 0001-01-01.
\<close>

definition started_after :: "runtime \<Rightarrow> int \<Rightarrow> pyval \<Rightarrow> bool" where
  "started_after R u a =
     (case a of
        PDict kvs \<Rightarrow>
          (case map_of kvs ''startTimeLocal'' of
             Some (PStr s) \<Rightarrow>
               s \<noteq> [] \<and> (case fromisoformat R (replace_Z_empty s) of
                            None \<Rightarrow> False
                          | Some d \<Rightarrow> u < us d)
           | _ \<Rightarrow> False)
      | _ \<Rightarrow> False)"

text \<open>An activity whose start-time string is missing or empty.\<close>

definition no_start :: "pyval \<Rightarrow> bool" where
  "no_start a =
     (case a of
        PDict kvs \<Rightarrow>
          (case map_of kvs ''startTimeLocal'' of
             None \<Rightarrow> True
           | Some v \<Rightarrow> v = PStr [] \<or> v = PNone)
      | _ \<Rightarrow> False)"

text \<open>The stored rows of the activity with the external identifier \<open>x\<close>.\<close>

definition stored_as :: "database \<Rightarrow> string \<Rightarrow> run_row list" where
  "stored_as db x = filter (\<lambda>r. activity_id (row r) = x) (runs db)"

section \<open>Properties\<close>

subsection \<open>Rounding\<close>

lemma round_half_even_near: "\<bar>of_int (round_half_even q) - q\<bar> \<le> 1 / 2"
proof -
  have "of_int \<lfloor>q\<rfloor> \<le> q" "q < of_int \<lfloor>q\<rfloor> + 1"
    by linarith+
  then show ?thesis
    unfolding round_half_even_def Let_def by (simp split: if_splits)
qed

lemma round_half_even_small: "0 \<le> q \<Longrightarrow> q < 1 / 2 \<Longrightarrow> round_half_even q = 0"
proof -
  assume "0 \<le> q" "q < 1 / 2"
  then have "\<lfloor>q\<rfloor> = 0" by (simp add: floor_eq_iff)
  with \<open>q < 1 / 2\<close> show ?thesis
    by (simp add: round_half_even_def Let_def)
qed

lemma pow2_powi: "pow2 e = 2 powi e"
  by (simp add: pow2_def power_int_def power_one_over inverse_eq_divide)

lemma pow2_pos: "0 < pow2 e"
  by (simp add: pow2_def)

lemma pow2_less: "a < b \<Longrightarrow> pow2 a < pow2 b"
  by (simp add: pow2_powi power_int_strict_increasing)

lemma pow2_le_imp: "pow2 a \<le> pow2 b \<Longrightarrow> a \<le> b"
  using pow2_less [of b a] by (cases "a \<le> b") auto

lemma pow2_less_imp: "pow2 a < pow2 b \<Longrightarrow> a < b"
  using pow2_less [of b a] by (cases "a < b") (auto simp: not_less le_less)

text \<open>The exponent brackets its argument.\<close>

lemma ilog2_bounds:
  assumes "0 < a"
  shows "pow2 (ilog2 a) \<le> a" and "a < pow2 (ilog2 a + 1)"
proof -
  have "pow2 (ilog2 a) \<le> a \<and> a < pow2 (ilog2 a + 1)"
  proof (cases "1 \<le> a")
    case True
    define n where "n = \<lfloor>a\<rfloor>"
    have n: "0 < n" "of_int n \<le> a" "a < of_int n + 1"
      using True by (simp_all add: n_def) linarith+
    from bitlen_bounds [OF n(1)] have b: "2 ^ nat (bitlen n - 1) \<le> n" "n < 2 ^ nat (bitlen n)"
      by simp_all
    have k: "1 \<le> bitlen n"
      using n(1) bitlen_eq_zero_iff [of n] bitlen_nonneg [of n] by linarith
    have "(2::rat) ^ nat (bitlen n - 1) \<le> of_int n"
      using b(1) by (metis of_int_le_iff of_int_numeral of_int_power)
    with n(2) have lo: "(2::rat) ^ nat (bitlen n - 1) \<le> a"
      by linarith
    have "of_int n + 1 \<le> (2::rat) ^ nat (bitlen n)"
    proof -
      from b(2) have "n + 1 \<le> 2 ^ nat (bitlen n)" by simp
      then have "(of_int (n + 1) :: rat) \<le> of_int (2 ^ nat (bitlen n))"
        by (simp only: of_int_le_iff)
      then show ?thesis by simp
    qed
    with n(3) have hi: "a < (2::rat) ^ nat (bitlen n)"
      by linarith
    have "ilog2 a = bitlen n - 1"
      using True by (simp add: ilog2_def n_def)
    then show ?thesis
      using lo hi k by (simp add: pow2_def)
  next
    case False
    define y where "y = 1 / a"
    define n where "n = \<lceil>y\<rceil> - 1"
    have y: "1 < y" using False assms by (simp add: y_def)
    have a: "a = 1 / y" using assms by (simp add: y_def)
    have n: "0 < n" "of_int n < y" "y \<le> of_int n + 1"
      using y by (simp_all add: n_def) linarith+
    from bitlen_bounds [OF n(1)] have b: "2 ^ nat (bitlen n - 1) \<le> n" "n < 2 ^ nat (bitlen n)"
      by simp_all
    have k: "1 \<le> bitlen n"
      using n(1) bitlen_eq_zero_iff [of n] bitlen_nonneg [of n] by linarith
    have lo: "(2::rat) ^ nat (bitlen n - 1) < y"
    proof -
      have "(2::rat) ^ nat (bitlen n - 1) \<le> of_int n"
        using b(1) by (metis of_int_le_iff of_int_numeral of_int_power)
      with n(2) show ?thesis by linarith
    qed
    have hi: "y \<le> (2::rat) ^ nat (bitlen n)"
    proof -
      from b(2) have "n + 1 \<le> 2 ^ nat (bitlen n)" by simp
      then have "(of_int (n + 1) :: rat) \<le> of_int (2 ^ nat (bitlen n))"
        by (simp only: of_int_le_iff)
      then have "of_int n + 1 \<le> (2::rat) ^ nat (bitlen n)" by simp
      with n(3) show ?thesis by linarith
    qed
    have e: "ilog2 a = - bitlen n"
      using False by (simp add: ilog2_def n_def y_def)
    have "pow2 (- bitlen n) \<le> a"
      using hi y k by (simp add: pow2_def a field_simps)
    moreover have "a < pow2 (- bitlen n + 1)"
    proof (cases "bitlen n = 1")
      case True
      then show ?thesis using y by (simp add: pow2_def a)
    next
      case False
      with k have "- bitlen n + 1 < 0" "nat (- (- bitlen n + 1)) = nat (bitlen n - 1)"
        by simp_all
      then show ?thesis
        using lo y by (simp add: pow2_def a field_simps)
    qed
    ultimately show ?thesis by (simp add: e)
  qed
  then show "pow2 (ilog2 a) \<le> a" and "a < pow2 (ilog2 a + 1)"
    by simp_all
qed

text \<open>A value at or beyond \<open>2\<^sup>1\<^sup>0\<^sup>2\<^sup>4\<close> rounds to infinity, one below \<open>2\<^sup>-\<^sup>1\<^sup>0\<^sup>7\<^sup>5\<close> to zero.\<close>

lemma rnd_overflow:
  assumes "pow2 1024 \<le> x"
  shows "rnd x = PosInf"
proof -
  have x: "0 < x" using assms pow2_pos [of 1024] by linarith
  from ilog2_bounds(2) [OF x] assms have "pow2 1024 < pow2 (ilog2 x + 1)"
    by linarith
  then have "1024 \<le> ilog2 x"
    using pow2_less_imp by fastforce
  then show ?thesis
    using x by (simp add: rnd_def Let_def max_def)
qed

lemma rnd_underflow:
  assumes "0 < x" "x < pow2 (- 1075)"
  shows "rnd x = Finite 0"
proof -
  from ilog2_bounds(1) [OF assms(1)] assms(2) have "pow2 (ilog2 x) < pow2 (- 1075)"
    by linarith
  then have "ilog2 x < - 1075"
    by (rule pow2_less_imp)
  then have q: "max (ilog2 \<bar>x\<bar>) (- 1022) - 52 = - 1074"
    using assms(1) by simp
  have "x / pow2 (- 1074) < 1 / 2"
    using assms(2) by (simp add: pow2_def field_simps)
  moreover have "0 \<le> x / pow2 (- 1074)"
    using assms(1) pow2_pos [of "- 1074"] by simp
  ultimately have "round_half_even (x / pow2 (- 1074)) = 0"
    by (intro round_half_even_small)
  then show ?thesis
    using assms(1) q by (simp add: rnd_def Let_def)
qed

subsection \<open>The fields of the normalized record\<close>

lemma format_fields_pace:
  assumes "format_fields R (PDict kvs) = Inr (aid, fd)"
  shows "calculate_pace (distance_meters fd) (duration_seconds fd) = Inr (avg_pace_seconds_per_km fd)"
    and "distance_meters fd = (case map_of kvs ''distance'' of None \<Rightarrow> PInt 0 | Some v \<Rightarrow> v)"
    and "duration_seconds fd = (case map_of kvs ''duration'' of None \<Rightarrow> PInt 0 | Some v \<Rightarrow> v)"
  using assms by (auto simp: format_fields_def bindE_def split: sum.splits)

subsection \<open>Pace\<close>

lemma gt0_truthy: "gt0 v = Inr True \<Longrightarrow> truthy v"
  by (cases v rule: gt0.cases) auto

lemma py_round2_finite:
  assumes "py_round2 (Finite q) = Inr p"
  shows "\<exists>k::int. p = rnd (of_int k / 100) \<and> \<bar>of_int k / 100 - q\<bar> \<le> 1 / 200"
proof -
  let ?k = "round_half_even (q * 100)"
  from assms have "p = rnd (of_int ?k / 100)"
    by (auto simp: py_round2_def checked_def split: double.splits)
  moreover have "\<bar>of_int ?k - q * 100\<bar> \<le> 1 / 2"
    by (rule round_half_even_near)
  then have "\<bar>of_int ?k / 100 - q\<bar> \<le> 1 / 200"
    by (simp add: field_simps abs_le_iff)
  ultimately show ?thesis by blast
qed

text \<open>
  C2 as amended. For a distance and a duration that are both positive numbers, the pace
  is \<^verbatim>\<open>round(duration / (distance / 1000), 2)\<close> in float arithmetic, provided the two
  divisions and the rounding raise nothing: when the float quotient is finite, the pace is
  the float nearest to a multiple of 1/100 that is at most 1/200 away from that quotient.
  When the distance or the duration is absent or zero the pace is \<^verbatim>\<open>None\<close>. In the
  normalized record the pace is computed from the record's own distance and duration, and
  a key that the source omits counts as 0.
\<close>

theorem calculate_pace_spec:
  "(gt0 dv = Inr True \<and> gt0 tv = Inr True \<and> truediv dv (PInt 1000) = Inr km
      \<and> truediv tv (PFloat km) = Inr qd \<and> py_round2 qd = Inr p \<longrightarrow>
        calculate_pace dv tv = Inr (PFloat p)
        \<and> (\<forall>q. qd = Finite q \<longrightarrow>
              (\<exists>k::int. p = rnd (of_int k / 100) \<and> \<bar>of_int k / 100 - q\<bar> \<le> 1 / 200)))
   \<and> (dv \<in> {PNone, PInt 0, PFloat (Finite 0)} \<or> tv \<in> {PNone, PInt 0, PFloat (Finite 0)} \<longrightarrow>
        calculate_pace dv tv = Inr PNone)
   \<and> (format_fields R (PDict kvs) = Inr (aid, fd) \<longrightarrow>
        distance_meters fd = (case map_of kvs ''distance'' of None \<Rightarrow> PInt 0 | Some v \<Rightarrow> v)
        \<and> duration_seconds fd = (case map_of kvs ''duration'' of None \<Rightarrow> PInt 0 | Some v \<Rightarrow> v)
        \<and> calculate_pace (distance_meters fd) (duration_seconds fd)
            = Inr (avg_pace_seconds_per_km fd))"
proof (intro conjI impI allI)
  assume h: "gt0 dv = Inr True \<and> gt0 tv = Inr True \<and> truediv dv (PInt 1000) = Inr km
      \<and> truediv tv (PFloat km) = Inr qd \<and> py_round2 qd = Inr p"
  then have "truthy dv" "truthy tv"
    by (simp_all add: gt0_truthy)
  with h show "calculate_pace dv tv = Inr (PFloat p)"
    by (simp add: calculate_pace_def bindE_def)
  fix q
  assume "qd = Finite q"
  with h have "py_round2 (Finite q) = Inr p" by simp
  then show "\<exists>k::int. p = rnd (of_int k / 100) \<and> \<bar>of_int k / 100 - q\<bar> \<le> 1 / 200"
    by (rule py_round2_finite)
next
  assume "dv \<in> {PNone, PInt 0, PFloat (Finite 0)} \<or> tv \<in> {PNone, PInt 0, PFloat (Finite 0)}"
  then show "calculate_pace dv tv = Inr PNone"
    by (auto simp: calculate_pace_def)
next
  assume "format_fields R (PDict kvs) = Inr (aid, fd)"
  then show "distance_meters fd = (case map_of kvs ''distance'' of None \<Rightarrow> PInt 0 | Some v \<Rightarrow> v)"
    by (rule format_fields_pace)
next
  assume "format_fields R (PDict kvs) = Inr (aid, fd)"
  then show "duration_seconds fd = (case map_of kvs ''duration'' of None \<Rightarrow> PInt 0 | Some v \<Rightarrow> v)"
    by (rule format_fields_pace)
next
  assume "format_fields R (PDict kvs) = Inr (aid, fd)"
  then show "calculate_pace (distance_meters fd) (duration_seconds fd)
            = Inr (avg_pace_seconds_per_km fd)"
    by (rule format_fields_pace)
qed

text \<open>
  C2 as stated fails. The integer \<open>10\<^sup>4\<^sup>0\<^sup>0\<close> is a positive distance, and dividing it by
  1000 raises OverflowError. The smallest positive float \<open>2\<^sup>-\<^sup>1\<^sup>0\<^sup>7\<^sup>4\<close> is a positive
  distance, its thousandth rounds to 0.0, and dividing the duration by it raises
  ZeroDivisionError. In both cases no pace is derived.
\<close>

theorem pace_range_counterexample:
  "gt0 (PInt (10 ^ 400)) = Inr True \<and> gt0 (PInt 1500) = Inr True
   \<and> calculate_pace (PInt (10 ^ 400)) (PInt 1500) = Inl OverflowError
   \<and> gt0 (PFloat (Finite (1 / 2 ^ 1074))) = Inr True
   \<and> truediv (PFloat (Finite (1 / 2 ^ 1074))) (PInt 1000) = Inr (Finite 0)
   \<and> calculate_pace (PFloat (Finite (1 / 2 ^ 1074))) (PInt 1500) = Inl ZeroDivisionError"
proof -
  have "pow2 1024 \<le> of_int (10 ^ 400) / of_int 1000"
    by (simp add: pow2_def)
  then have big: "rnd (of_int (10 ^ 400) / of_int 1000) = PosInf"
    by (rule rnd_overflow)
  have a: "calculate_pace (PInt (10 ^ 400)) (PInt 1500) = Inl OverflowError"
    using big by (simp add: calculate_pace_def truediv_def checked_def bindE_def)
  have "(0::rat) < 1 / 2 ^ 1074 / 1000" "(1::rat) / 2 ^ 1074 / 1000 < pow2 (- 1075)"
    by (simp_all add: pow2_def)
  then have small: "rnd (1 / 2 ^ 1074 / 1000) = Finite 0"
    by (rule rnd_underflow)
  have k: "rnd 1000 = Finite 1000" "rnd 1500 = Finite 1500"
    by code_simp+
  have t: "truthy (PFloat (Finite (1 / 2 ^ 1074)))"
    by simp
  have b: "truediv (PFloat (Finite (1 / 2 ^ 1074))) (PInt 1000) = Inr (Finite 0)"
    using small k by (simp add: truediv_def to_double_def checked_def bindE_def fdiv_def)
  have c: "truediv (PInt 1500) (PFloat (Finite 0)) = Inl ZeroDivisionError"
    using k by (simp add: truediv_def to_double_def checked_def bindE_def fdiv_def)
  have d: "calculate_pace (PFloat (Finite (1 / 2 ^ 1074))) (PInt 1500) = Inl ZeroDivisionError"
    using b c t by (simp add: calculate_pace_def bindE_def)
  show ?thesis
    using a b d by simp
qed

text \<open>
  5000 m in 1500 s is 300.00 s/km; 40000 m in 7201 s is the float nearest to 180.03,
  because the float quotient lies just above 180.025; without a distance, or with a
  duration of 0, there is no pace; the record of the scenario (10000 m in 3000 s) has the
  pace 300.
\<close>

theorem calculate_pace_spec_witness:
  "calculate_pace (PInt 5000) (PInt 1500) = Inr (PFloat (Finite 300))
   \<and> calculate_pace (PInt 40000) (PInt 7201) = Inr (PFloat (rnd (18003 / 100)))
   \<and> calculate_pace PNone (PInt 1500) = Inr PNone
   \<and> calculate_pace (PInt 5000) (PInt 0) = Inr PNone
   \<and> (\<exists>aid fd. format_fields ex_runtime ex_summary_sparse = Inr (aid, fd)
        \<and> distance_meters fd = PInt 10000 \<and> duration_seconds fd = PInt 3000
        \<and> calculate_pace (PInt 10000) (PInt 3000) = Inr (avg_pace_seconds_per_km fd)
        \<and> avg_pace_seconds_per_km fd = PFloat (Finite 300))"
proof -
  have f: "format_fields ex_runtime ex_summary_sparse =
      Inr (PInt 42,
        \<lparr>activity_id = ''42'', start_time = \<lparr>us = 63839685600000000, tz = None\<rparr>,
         end_time = Some \<lparr>us = 63839688600000000, tz = None\<rparr>, distance_meters = PInt 10000,
         duration_seconds = PInt 3000, avg_pace_seconds_per_km = PFloat (Finite 300),
         calories = PInt 0, avg_heart_rate = PNone, max_heart_rate = PNone\<rparr>)"
    by code_simp
  note g = calculate_pace_spec [where R = ex_runtime and aid = "PInt 42" and fd =
        "\<lparr>activity_id = ''42'', start_time = \<lparr>us = 63839685600000000, tz = None\<rparr>,
          end_time = Some \<lparr>us = 63839688600000000, tz = None\<rparr>, distance_meters = PInt 10000,
          duration_seconds = PInt 3000, avg_pace_seconds_per_km = PFloat (Finite 300),
          calories = PInt 0, avg_heart_rate = PNone, max_heart_rate = PNone\<rparr>"
        and kvs = "[(''activityId'', PInt 42),
                    (''activityType'', PDict [(''typeKey'', PStr ''running'')]),
                    (''distance'', PInt 10000), (''duration'', PInt 3000),
                    (''startTimeLocal'', PStr ''2024-01-01T06:00:00'')]"]
  have e1: "truediv (PInt 5000) (PInt 1000) = Inr (Finite 5)"
    "truediv (PInt 1500) (PFloat (Finite 5)) = Inr (Finite 300)"
    "py_round2 (Finite 300) = Inr (Finite 300)"
    by code_simp+
  have a: "calculate_pace (PInt 5000) (PInt 1500) = Inr (PFloat (Finite 300))"
    using calculate_pace_spec [where dv = "PInt 5000" and tv = "PInt 1500" and km = "Finite 5"
        and qd = "Finite 300" and p = "Finite 300"] e1
    by simp
  have e2: "truediv (PInt 40000) (PInt 1000) = Inr (Finite 40)"
    "truediv (PInt 7201) (PFloat (Finite 40)) = Inr (rnd (7201 / 40))"
    "py_round2 (rnd (7201 / 40)) = Inr (rnd (18003 / 100))"
    by code_simp+
  have a': "calculate_pace (PInt 40000) (PInt 7201) = Inr (PFloat (rnd (18003 / 100)))"
    using calculate_pace_spec [where dv = "PInt 40000" and tv = "PInt 7201" and km = "Finite 40"
        and qd = "rnd (7201 / 40)" and p = "rnd (18003 / 100)"] e2
    by simp
  have b: "calculate_pace PNone (PInt 1500) = Inr PNone"
    using calculate_pace_spec [where dv = PNone and tv = "PInt 1500"] by simp
  have c: "calculate_pace (PInt 5000) (PInt 0) = Inr PNone"
    using calculate_pace_spec [where dv = "PInt 5000" and tv = "PInt 0"] by simp
  have d: "calculate_pace (PInt 10000) (PInt 3000) = Inr (PFloat (Finite 300))"
    using g f by (simp add: ex_summary_sparse_def)
  show ?thesis
    using a a' b c d f by simp
qed

subsection \<open>Track parser\<close>

lemma child_step_coords:
  "child_step R c p = Inr p' \<Longrightarrow> latitude p' = latitude p \<and> longitude p' = longitude p"
  by (auto simp: child_step_def split: if_splits option.splits)

lemma child_step_ok:
  "numeric_ele R c \<Longrightarrow> \<exists>p'. child_step R c p = Inr p'"
  by (auto simp: child_step_def numeric_ele_def split: if_splits option.splits)

lemma process_children_ok:
  "list_all (numeric_ele R) cs \<Longrightarrow>
     \<exists>p'. process_children R cs p = Inr p' \<and> latitude p' = latitude p \<and> longitude p' = longitude p"
proof (induction cs arbitrary: p)
  case Nil
  then show ?case by simp
next
  case (Cons c cs)
  from Cons.prems obtain q where q: "child_step R c p = Inr q"
    using child_step_ok [of R c p] by auto
  from Cons.IH [of q] Cons.prems obtain p' where
    "process_children R cs q = Inr p'" "latitude p' = latitude q" "longitude p' = longitude q"
    by auto
  with q child_step_coords [OF q] show ?case by simp
qed

lemma trkpt_point_ok:
  assumes "py_float R la = Some x" "py_float R lo = Some y" "list_all (numeric_ele R) cs"
  shows "\<exists>p. trkpt_point R la lo cs = Inr p \<and> latitude p = x \<and> longitude p = y"
  using assms process_children_ok [of R cs
      "\<lparr>latitude = x, longitude = y, elevation_meters = None, speed_mps = None,
        timestamp = datetime_now R\<rparr>"]
  by (auto simp: trkpt_point_def)

lemma trkpt_loop_retained:
  assumes "\<forall>e \<in> set (filter retained es). converts R e"
  shows "\<exists>pts. trkpt_loop R es acc = (acc @ pts, None)
           \<and> list_all2 (sample_at R) (filter retained es) pts"
  using assms
proof (induction es arbitrary: acc)
  case Nil
  then show ?case by simp
next
  case (Cons e es)
  show ?case
  proof (cases "retained e")
    case False
    then have "trkpt_loop R (e # es) acc = trkpt_loop R es acc"
      by (auto simp: retained_def Let_def)
    with Cons False show ?thesis by simp
  next
    case True
    then obtain la lo where l: "map_of (attrib e) ''lat'' = Some la" "map_of (attrib e) ''lon'' = Some lo"
      and t: "contains ''trkpt'' (tag e)" and ne: "la \<noteq> []" "lo \<noteq> []"
      by (cases "map_of (attrib e) ''lat''"; cases "map_of (attrib e) ''lon''")
        (auto simp: retained_def)
    from Cons.prems True have "converts R e" by simp
    with l obtain x y where n: "py_float R la = Some x" "py_float R lo = Some y"
      "list_all (numeric_ele R) (children e)"
      by (auto simp: converts_def)
    from trkpt_point_ok [OF n] obtain p where
      p: "trkpt_point R la lo (children e) = Inr p" "latitude p = x" "longitude p = y"
      by auto
    have s: "sample_at R e p"
      using l n p by (simp add: sample_at_def)
    have "trkpt_loop R (e # es) acc = trkpt_loop R es (acc @ [p])"
      using t l ne p by (simp add: Let_def)
    moreover from Cons.IH [of "acc @ [p]"] Cons.prems obtain pts where
      "trkpt_loop R es (acc @ [p]) = (acc @ [p] @ pts, None)"
      "list_all2 (sample_at R) (filter retained es) pts"
      by auto
    ultimately show ?thesis using True s by auto
  qed
qed

text \<open>
  C5 as amended. When the document parses and, in every element that the parser retains
  (its tag contains \<^verbatim>\<open>trkpt\<close>, its attributes \<^verbatim>\<open>lat\<close> and \<^verbatim>\<open>lon\<close> are present and not
  empty), the coordinates and the elevation texts convert to floats, the parser returns,
  without a warning, exactly one sample for each retained element, in document order and
  with the coordinates of that element; every other element is skipped.
\<close>

theorem parse_gpx_document_order:
  assumes "et_fromstring R gpx_data = Some root_el"
    and "\<forall>e \<in> set (filter retained (iter_el root_el)). converts R e"
  shows "\<exists>pts. parse_gpx_simple R gpx_data = (pts, [])
           \<and> list_all2 (sample_at R) (filter retained (iter_el root_el)) pts"
  using trkpt_loop_retained [OF assms(2), of "[]"] assms(1)
  by (auto simp: parse_gpx_simple_def)

text \<open>
  C5 as stated fails. The document below has one track-point, which carries both
  coordinate attributes, the longitude being empty, and one element named
  \<^verbatim>\<open>nottrkptatall\<close>. The parser skips the track-point and returns a sample for the other
  element.
\<close>

theorem track_point_counterexample:
  "et_fromstring ex_runtime ex_gpx_odd = Some ex_gpx_odd_tree
   \<and> map (\<lambda>e. (tag e, map_of (attrib e) ''lat'', map_of (attrib e) ''lon''))
        (iter_el ex_gpx_odd_tree)
       = [(''gpx'', None, None), (''trkpt'', Some ''47.1'', Some []),
          (''nottrkptatall'', Some ''1'', Some ''2'')]
   \<and> map (\<lambda>p. (latitude p, longitude p)) (fst (parse_gpx_simple ex_runtime ex_gpx_odd))
       = [(Finite 1, Finite 2)]
   \<and> snd (parse_gpx_simple ex_runtime ex_gpx_odd) = []"
  by code_simp

text \<open>
  The document of the examples has three track-points, the second without a longitude:
  the parser returns the first and the third, in this order.
\<close>

theorem parse_gpx_document_order_witness:
  "et_fromstring ex_runtime ex_gpx = Some ex_gpx_tree
   \<and> list_all (converts ex_runtime) (filter retained (iter_el ex_gpx_tree))
   \<and> length (filter (\<lambda>e. contains ''trkpt'' (tag e)) (iter_el ex_gpx_tree)) = 3
   \<and> map (\<lambda>e. map_of (attrib e) ''lat'') (filter retained (iter_el ex_gpx_tree))
       = [Some ''47.1'', Some ''47.3'']
   \<and> map (\<lambda>p. (latitude p, longitude p)) (fst (parse_gpx_simple ex_runtime ex_gpx))
       = [(rnd (471 / 10), rnd (81 / 10)), (rnd (473 / 10), rnd (83 / 10))]
   \<and> snd (parse_gpx_simple ex_runtime ex_gpx) = []
   \<and> list_all2 (sample_at ex_runtime) (filter retained (iter_el ex_gpx_tree))
        (fst (parse_gpx_simple ex_runtime ex_gpx))"
proof -
  have a: "et_fromstring ex_runtime ex_gpx = Some ex_gpx_tree"
    by code_simp
  have b: "\<forall>e \<in> set (filter retained (iter_el ex_gpx_tree)). converts ex_runtime e"
    by code_simp
  have c: "length (filter (\<lambda>e. contains ''trkpt'' (tag e)) (iter_el ex_gpx_tree)) = 3"
    by code_simp
  have d: "map (\<lambda>e. map_of (attrib e) ''lat'') (filter retained (iter_el ex_gpx_tree))
       = [Some ''47.1'', Some ''47.3'']"
    by code_simp
  have e: "map (\<lambda>p. (latitude p, longitude p)) (fst (parse_gpx_simple ex_runtime ex_gpx))
       = [(rnd (471 / 10), rnd (81 / 10)), (rnd (473 / 10), rnd (83 / 10))]"
    by code_simp
  from parse_gpx_document_order [OF a b] have
    "snd (parse_gpx_simple ex_runtime ex_gpx) = []
     \<and> list_all2 (sample_at ex_runtime) (filter retained (iter_el ex_gpx_tree))
        (fst (parse_gpx_simple ex_runtime ex_gpx))"
    by auto
  moreover have "list_all (converts ex_runtime) (filter retained (iter_el ex_gpx_tree))"
    by code_simp
  ultimately show ?thesis using a c d e by simp
qed

text \<open>
  C6. On an input that is not parseable markup the parser returns the empty sequence and
  one logged warning; the result is a value, no exception leaves the parser.
\<close>

theorem parse_gpx_malformed:
  "et_fromstring R gpx_data = None \<Longrightarrow>
     parse_gpx_simple R gpx_data = ([], [(WARNING, ''Error parsing GPX data'')])"
  by (simp add: parse_gpx_simple_def)

theorem parse_gpx_malformed_witness:
  "et_fromstring ex_runtime ''<gpx><trk>'' = None
   \<and> parse_gpx_simple ex_runtime ''<gpx><trk>'' = ([], [(WARNING, ''Error parsing GPX data'')])"
proof -
  have a: "et_fromstring ex_runtime ''<gpx><trk>'' = None"
    by code_simp
  from parse_gpx_malformed [OF a] a show ?thesis by simp
qed

text \<open>
  C7. The document below parses, and both of its track-points carry coordinates. The text
  of the first elevation is not a number: the conversion raises, the handler of the whole
  parser catches it, and the result has neither the first point with an absent elevation
  nor the second point.
\<close>

theorem parse_gpx_bad_elevation:
  "et_fromstring ex_runtime ex_gpx_bad_ele = Some ex_gpx_bad_ele_tree
   \<and> length (filter carries_coords (iter_el ex_gpx_bad_ele_tree)) = 2
   \<and> parse_gpx_simple ex_runtime ex_gpx_bad_ele = ([], [(WARNING, ''Error parsing GPX data'')])"
  by code_simp

subsection \<open>Normalizer\<close>

lemma extend_fields:
  "activity_id (run_data.extend rd m) = activity_id rd"
  "start_time (run_data.extend rd m) = start_time rd"
  "end_time (run_data.extend rd m) = end_time rd"
  "distance_meters (run_data.extend rd m) = distance_meters rd"
  "duration_seconds (run_data.extend rd m) = duration_seconds rd"
  "avg_pace_seconds_per_km (run_data.extend rd m) = avg_pace_seconds_per_km rd"
  "calories (run_data.extend rd m) = calories rd"
  "avg_heart_rate (run_data.extend rd m) = avg_heart_rate rd"
  "max_heart_rate (run_data.extend rd m) = max_heart_rate rd"
  "gps_points (run_data.extend rd \<lparr>gps_points = pts\<rparr>) = pts"
  "run_data.truncate (run_data.extend rd m) = rd"
  by (simp_all add: run_data.extend_def run_data.truncate_def)

lemma format_activity_data_Some:
  assumes "fst (format_activity_data R G det s) = Some fd"
  obtains aid rd where "format_fields R s = Inr (aid, rd)"
    and "fd = run_data.extend rd \<lparr>gps_points = fst (get_gps_data R G aid)\<rparr>"
    and "summary_line (distance_meters rd) (duration_seconds rd) = Inr ()"
  using assms
  by (auto simp: format_activity_data_def split: sum.splits prod.splits)

lemma format_fields_passthrough:
  assumes "format_fields R (PDict kvs) = Inr (aid, rd)"
  shows "avg_heart_rate rd = (case map_of kvs ''averageHR'' of None \<Rightarrow> PNone | Some v \<Rightarrow> v)"
    and "max_heart_rate rd = (case map_of kvs ''maxHR'' of None \<Rightarrow> PNone | Some v \<Rightarrow> v)"
    and "calories rd = (case map_of kvs ''calories'' of None \<Rightarrow> PInt 0 | Some v \<Rightarrow> v)"
    and "aid = (case map_of kvs ''activityId'' of None \<Rightarrow> PNone | Some v \<Rightarrow> v)"
    and "activity_id rd = py_str R aid"
    and "start_time_of R (case map_of kvs ''startTimeLocal'' of None \<Rightarrow> PStr [] | Some v \<Rightarrow> v)
           = Inr (start_time rd)"
  using assms by (auto simp: format_fields_def bindE_def split: sum.splits)

text \<open>
  C3 as amended. In the normalized record the two heart-rate fields are the values of
  the keys \<^verbatim>\<open>averageHR\<close> and \<^verbatim>\<open>maxHR\<close> of the summary record, unchanged, and
  \<^verbatim>\<open>None\<close> when the source omits them; the calories are the value of the key
  \<^verbatim>\<open>calories\<close>, unchanged, and 0 when the source omits it.
\<close>

theorem normalize_passthrough:
  assumes "fst (format_activity_data R G detailed_activity (PDict kvs)) = Some fd"
  shows "avg_heart_rate fd = (case map_of kvs ''averageHR'' of None \<Rightarrow> PNone | Some v \<Rightarrow> v)
       \<and> max_heart_rate fd = (case map_of kvs ''maxHR'' of None \<Rightarrow> PNone | Some v \<Rightarrow> v)
       \<and> calories fd = (case map_of kvs ''calories'' of None \<Rightarrow> PInt 0 | Some v \<Rightarrow> v)"
proof -
  from assms obtain aid rd where f: "format_fields R (PDict kvs) = Inr (aid, rd)"
    and e: "fd = run_data.extend rd \<lparr>gps_points = fst (get_gps_data R G aid)\<rparr>"
    by (rule format_activity_data_Some)
  show ?thesis
    using format_fields_passthrough(1-3) [OF f] by (simp add: e extend_fields)
qed

text \<open>
  C3 as stated fails: the record of the scenario has no key \<^verbatim>\<open>calories\<close>, and its
  normalized calories are 0, not \<^verbatim>\<open>None\<close>.
\<close>

theorem calories_default_counterexample:
  "dict_item ex_summary_sparse ''calories'' = Inl KeyError
   \<and> map_option calories (fst (format_activity_data ex_runtime (ex_sync []) (PDict []) ex_summary_sparse))
       = Some (PInt 0)"
  by code_simp


text \<open>The record with heart rates 150 and 175 and 650 calories, and the one without.\<close>

theorem normalize_passthrough_witness:
  "map_option avg_heart_rate (fst (format_activity_data ex_runtime (ex_sync []) (PDict []) ex_summary))
     = Some (PInt 150)
   \<and> map_option max_heart_rate (fst (format_activity_data ex_runtime (ex_sync []) (PDict []) ex_summary))
     = Some (PInt 175)
   \<and> map_option calories (fst (format_activity_data ex_runtime (ex_sync []) (PDict []) ex_summary))
     = Some (PInt 650)
   \<and> map_option avg_heart_rate
        (fst (format_activity_data ex_runtime (ex_sync []) (PDict []) ex_summary_sparse)) = Some PNone
   \<and> map_option max_heart_rate
        (fst (format_activity_data ex_runtime (ex_sync []) (PDict []) ex_summary_sparse)) = Some PNone"
proof -
  have "fst (format_activity_data ex_runtime (ex_sync []) (PDict []) ex_summary) \<noteq> None"
    by code_simp
  then obtain fd where
    f: "fst (format_activity_data ex_runtime (ex_sync []) (PDict []) ex_summary) = Some fd"
    by blast
  have "fst (format_activity_data ex_runtime (ex_sync []) (PDict []) ex_summary_sparse) \<noteq> None"
    by code_simp
  then obtain fd' where
    g: "fst (format_activity_data ex_runtime (ex_sync []) (PDict []) ex_summary_sparse) = Some fd'"
    by blast
  from normalize_passthrough [OF f [unfolded ex_summary_def]]
  have "avg_heart_rate fd = PInt 150 \<and> max_heart_rate fd = PInt 175 \<and> calories fd = PInt 650"
    by simp
  moreover from normalize_passthrough [OF g [unfolded ex_summary_sparse_def]]
  have "avg_heart_rate fd' = PNone \<and> max_heart_rate fd' = PNone"
    by simp
  ultimately show ?thesis using f g by simp
qed

lemma falsy_start:
  "(case map_of kvs ''startTimeLocal'' of None \<Rightarrow> True | Some v \<Rightarrow> \<not> truthy v) \<Longrightarrow>
     start_time_of R (case map_of kvs ''startTimeLocal'' of None \<Rightarrow> PStr [] | Some v \<Rightarrow> v)
       = Inr (datetime_now R)"
  by (simp add: start_time_of_def split: option.splits)

text \<open>
  C4 as amended. The start time of a normalized record is parsed from the start-time
  string of the summary with every \<^verbatim>\<open>Z\<close> removed. When that string is missing or empty,
  the start time is the current time, and normalization succeeds whenever the end time,
  the pace and the log message of the record can be computed without an exception. When
  the string is not empty and does not parse, normalization returns no record and logs an
  error.
\<close>

theorem start_time_rule:
  "(fst (format_activity_data R G detailed_activity (PDict kvs)) = Some fd
      \<and> map_of kvs ''startTimeLocal'' = Some (PStr s) \<and> s \<noteq> [] \<longrightarrow>
        fromisoformat R (replace_Z_empty s) = Some (start_time fd))
   \<and> ((case map_of kvs ''startTimeLocal'' of None \<Rightarrow> True | Some v \<Rightarrow> \<not> truthy v)
      \<and> end_time_of (datetime_now R)
           (case map_of kvs ''duration'' of None \<Rightarrow> PInt 0 | Some v \<Rightarrow> v) = Inr et
      \<and> calculate_pace (case map_of kvs ''distance'' of None \<Rightarrow> PInt 0 | Some v \<Rightarrow> v)
           (case map_of kvs ''duration'' of None \<Rightarrow> PInt 0 | Some v \<Rightarrow> v) = Inr pace
      \<and> summary_line (case map_of kvs ''distance'' of None \<Rightarrow> PInt 0 | Some v \<Rightarrow> v)
           (case map_of kvs ''duration'' of None \<Rightarrow> PInt 0 | Some v \<Rightarrow> v) = Inr ()
      \<longrightarrow> (\<exists>fd'. fst (format_activity_data R G detailed_activity (PDict kvs)) = Some fd'
             \<and> start_time fd' = datetime_now R \<and> end_time fd' = et))
   \<and> (map_of kvs ''startTimeLocal'' = Some (PStr s) \<and> s \<noteq> []
       \<and> fromisoformat R (replace_Z_empty s) = None \<longrightarrow>
        format_activity_data R G detailed_activity (PDict kvs)
          = (None, [(ERROR, ''Error formatting activity data'')]))"
proof (intro conjI impI)
  assume a: "fst (format_activity_data R G detailed_activity (PDict kvs)) = Some fd
      \<and> map_of kvs ''startTimeLocal'' = Some (PStr s) \<and> s \<noteq> []"
  then obtain aid rd where f: "format_fields R (PDict kvs) = Inr (aid, rd)"
    and e: "fd = run_data.extend rd \<lparr>gps_points = fst (get_gps_data R G aid)\<rparr>"
    using format_activity_data_Some by blast
  from format_fields_passthrough(6) [OF f] a
  have "fromisoformat R (replace_Z_empty s) = Some (start_time rd)"
    by (simp add: start_time_of_def parse_start_def split: option.splits)
  then show "fromisoformat R (replace_Z_empty s) = Some (start_time fd)"
    by (simp add: e extend_fields)
next
  let ?distance = "case map_of kvs ''distance'' of None \<Rightarrow> PInt 0 | Some v \<Rightarrow> v"
  let ?duration = "case map_of kvs ''duration'' of None \<Rightarrow> PInt 0 | Some v \<Rightarrow> v"
  assume a: "(case map_of kvs ''startTimeLocal'' of None \<Rightarrow> True | Some v \<Rightarrow> \<not> truthy v)
      \<and> end_time_of (datetime_now R) ?duration = Inr et
      \<and> calculate_pace ?distance ?duration = Inr pace
      \<and> summary_line ?distance ?duration = Inr ()"
  then have st: "start_time_of R (case map_of kvs ''startTimeLocal'' of None \<Rightarrow> PStr [] | Some v \<Rightarrow> v)
      = Inr (datetime_now R)"
    by (simp add: falsy_start)
  from a have p: "end_time_of (datetime_now R) ?duration = Inr et"
    "calculate_pace ?distance ?duration = Inr pace"
    "summary_line ?distance ?duration = Inr ()"
    by blast+
  obtain aid rd where f: "format_fields R (PDict kvs) = Inr (aid, rd)"
    and r: "start_time rd = datetime_now R" "end_time rd = et"
      "distance_meters rd = ?distance" "duration_seconds rd = ?duration"
    using p st by (simp add: format_fields_def bindE_def)
  have "summary_line (distance_meters rd) (duration_seconds rd) = Inr ()"
    using p(3) r by simp
  with f have "fst (format_activity_data R G detailed_activity (PDict kvs))
      = Some (run_data.extend rd \<lparr>gps_points = fst (get_gps_data R G aid)\<rparr>)"
    by (simp add: format_activity_data_def split: prod.splits)
  with r show "\<exists>fd'. fst (format_activity_data R G detailed_activity (PDict kvs)) = Some fd'
             \<and> start_time fd' = datetime_now R \<and> end_time fd' = et"
    by (simp add: extend_fields)
next
  assume "map_of kvs ''startTimeLocal'' = Some (PStr s) \<and> s \<noteq> []
       \<and> fromisoformat R (replace_Z_empty s) = None"
  then have "format_fields R (PDict kvs) = Inl ValueError"
    by (simp add: format_fields_def bindE_def start_time_of_def parse_start_def)
  then show "format_activity_data R G detailed_activity (PDict kvs)
          = (None, [(ERROR, ''Error formatting activity data'')])"
    by (simp add: format_activity_data_def)
qed

text \<open>
  C4 as stated fails: with the start-time string \<^verbatim>\<open>not-a-date\<close> normalization returns
  no record instead of one that starts at the current time.
\<close>

theorem unparseable_start_counterexample:
  "dict_item ex_summary_bad_start ''startTimeLocal'' = Inr (PStr ''not-a-date'')
   \<and> fromisoformat ex_runtime (replace_Z_empty ''not-a-date'') = None
   \<and> format_activity_data ex_runtime (ex_sync []) (PDict []) ex_summary_bad_start
       = (None, [(ERROR, ''Error formatting activity data'')])"
  by code_simp


text \<open>
  A start time with a trailing \<^verbatim>\<open>Z\<close> parses as the same string without it; the record
  without a start time starts at the clock reading; the record with \<^verbatim>\<open>not-a-date\<close> fails.
\<close>

theorem start_time_rule_witness:
  "map_option start_time
     (fst (format_activity_data ex_runtime (ex_sync []) (PDict [])
        (PDict [(''activityId'', PInt 42), (''startTimeLocal'', PStr ''2024-01-01T06:00:00Z'')])))
     = Some \<lparr>us = 63839685600000000, tz = None\<rparr>
   \<and> fromisoformat ex_runtime ''2024-01-01T06:00:00'' = Some \<lparr>us = 63839685600000000, tz = None\<rparr>
   \<and> map_option start_time
        (fst (format_activity_data ex_runtime (ex_sync []) (PDict []) ex_summary_no_start))
       = Some (datetime_now ex_runtime)
   \<and> format_activity_data ex_runtime (ex_sync []) (PDict []) ex_summary_bad_start
       = (None, [(ERROR, ''Error formatting activity data'')])"
proof -
  have "fst (format_activity_data ex_runtime (ex_sync []) (PDict [])
        (PDict [(''activityId'', PInt 42), (''startTimeLocal'', PStr ''2024-01-01T06:00:00Z'')]))
      \<noteq> None"
    by code_simp
  then obtain fd where f: "fst (format_activity_data ex_runtime (ex_sync []) (PDict [])
        (PDict [(''activityId'', PInt 42), (''startTimeLocal'', PStr ''2024-01-01T06:00:00Z'')]))
      = Some fd"
    by blast
  have z: "fromisoformat ex_runtime (replace_Z_empty ''2024-01-01T06:00:00Z'')
      = Some \<lparr>us = 63839685600000000, tz = None\<rparr>"
    by code_simp
  have z': "fromisoformat ex_runtime ''2024-01-01T06:00:00''
      = Some \<lparr>us = 63839685600000000, tz = None\<rparr>"
    by code_simp
  have a: "start_time fd = \<lparr>us = 63839685600000000, tz = None\<rparr>"
    using start_time_rule [where R = ex_runtime and G = "ex_sync []" and detailed_activity = "PDict []"
        and kvs = "[(''activityId'', PInt 42), (''startTimeLocal'', PStr ''2024-01-01T06:00:00Z'')]"
        and s = "''2024-01-01T06:00:00Z''" and fd = fd] f z
    by simp
  have e: "end_time_of (datetime_now ex_runtime) (PInt 3000)
      = Inr (Some \<lparr>us = 63840315000000000, tz = None\<rparr>)"
    "calculate_pace (PInt 10000) (PInt 3000) = Inr (PFloat (Finite 300))"
    "summary_line (PInt 10000) (PInt 3000) = Inr ()"
    by code_simp+
  have b: "map_option start_time
        (fst (format_activity_data ex_runtime (ex_sync []) (PDict []) ex_summary_no_start))
       = Some (datetime_now ex_runtime)"
    using start_time_rule [where R = ex_runtime and G = "ex_sync []" and detailed_activity = "PDict []"
        and kvs = "[(''activityId'', PInt 42),
                    (''activityType'', PDict [(''typeKey'', PStr ''running'')]),
                    (''distance'', PInt 10000), (''duration'', PInt 3000)]"
        and pace = "PFloat (Finite 300)"
        and et = "Some \<lparr>us = 63840315000000000, tz = None\<rparr>"] e
    by (auto simp: ex_summary_no_start_def)
  have n: "fromisoformat ex_runtime (replace_Z_empty ''not-a-date'') = None"
    by code_simp
  have c: "format_activity_data ex_runtime (ex_sync []) (PDict []) ex_summary_bad_start
       = (None, [(ERROR, ''Error formatting activity data'')])"
    using start_time_rule [where R = ex_runtime and G = "ex_sync []" and detailed_activity = "PDict []"
        and kvs = "[(''activityId'', PInt 42),
                    (''activityType'', PDict [(''typeKey'', PStr ''running'')]),
                    (''distance'', PInt 10000), (''duration'', PInt 3000),
                    (''startTimeLocal'', PStr ''not-a-date'')]"
        and s = "''not-a-date''"] n
    by (simp add: ex_summary_bad_start_def)
  show ?thesis using a b c f z' by simp
qed

text \<open>
  C8 as amended. When the first running activity of the listing has no key
  \<^verbatim>\<open>activityId\<close>, \<^verbatim>\<open>get_latest_run\<close> returns no record and logs an error: the lookup
  \<^verbatim>\<open>latest_run['activityId']\<close> raises before the normalizer is called, and the handler
  catches it. A summary that is not a dictionary makes the normalizer return no record
  and log an error. The normalizer does not reject a dictionary without the key: it
  stores the text of \<^verbatim>\<open>None\<close> as identifier.
\<close>

theorem missing_identifier:
  "(logged_in G \<and> client G = Some c \<and> get_activities c 0 100 = Inr activities
      \<and> filter_running activities = Inr (PDict kvs # others)
      \<and> map_of kvs ''activityId'' = None \<longrightarrow>
        get_latest_run R G =
          (None, [(INFO, ''Found total activities''), (INFO, ''Found running activities''),
                  (ERROR, ''Error getting latest run'')]))
   \<and> ((\<forall>kvs'. summary_activity \<noteq> PDict kvs') \<longrightarrow>
        format_activity_data R G detailed_activity summary_activity
          = (None, [(ERROR, ''Error formatting activity data'')]))
   \<and> (map_of kvs ''activityId'' = None
       \<and> fst (format_activity_data R G detailed_activity (PDict kvs)) = Some fd \<longrightarrow>
        activity_id fd = ''None'')"
proof (intro conjI impI)
  assume "logged_in G \<and> client G = Some c \<and> get_activities c 0 100 = Inr activities
      \<and> filter_running activities = Inr (PDict kvs # others)
      \<and> map_of kvs ''activityId'' = None"
  then show "get_latest_run R G =
          (None, [(INFO, ''Found total activities''), (INFO, ''Found running activities''),
                  (ERROR, ''Error getting latest run'')])"
    by (simp add: get_latest_run_def)
next
  assume "\<forall>kvs'. summary_activity \<noteq> PDict kvs'"
  then have "format_fields R summary_activity = Inl AttributeError"
    by (cases summary_activity) (simp_all add: format_fields_def bindE_def)
  then show "format_activity_data R G detailed_activity summary_activity
          = (None, [(ERROR, ''Error formatting activity data'')])"
    by (simp add: format_activity_data_def)
next
  assume a: "map_of kvs ''activityId'' = None
       \<and> fst (format_activity_data R G detailed_activity (PDict kvs)) = Some fd"
  then obtain aid rd where f: "format_fields R (PDict kvs) = Inr (aid, rd)"
    and e: "fd = run_data.extend rd \<lparr>gps_points = fst (get_gps_data R G aid)\<rparr>"
    using format_activity_data_Some by blast
  from format_fields_passthrough(4,5) [OF f] a show "activity_id fd = ''None''"
    by (simp add: e extend_fields)
qed

text \<open>
  A listing whose first run has no identifier; a summary that is \<^verbatim>\<open>None\<close>; the normalizer
  on the dictionary without identifier.
\<close>

theorem missing_identifier_witness:
  "get_latest_run ex_runtime (ex_sync [ex_ride_1, ex_summary_no_id, ex_summary]) =
      (None, [(INFO, ''Found total activities''), (INFO, ''Found running activities''),
              (ERROR, ''Error getting latest run'')])
   \<and> format_activity_data ex_runtime (ex_sync []) (PDict []) PNone
        = (None, [(ERROR, ''Error formatting activity data'')])
   \<and> map_option activity_id
        (fst (format_activity_data ex_runtime (ex_sync []) (PDict []) ex_summary_no_id))
       = Some ''None''"
proof -
  have l: "logged_in (ex_sync [ex_ride_1, ex_summary_no_id, ex_summary])"
    "client (ex_sync [ex_ride_1, ex_summary_no_id, ex_summary])
       = Some (ex_service [ex_ride_1, ex_summary_no_id, ex_summary])"
    by (simp_all add: ex_sync_def)
  have g: "get_activities (ex_service [ex_ride_1, ex_summary_no_id, ex_summary]) 0 100
      = Inr [ex_ride_1, ex_summary_no_id, ex_summary]"
    by (simp add: ex_service_def)
  have r: "filter_running [ex_ride_1, ex_summary_no_id, ex_summary] =
      Inr (PDict [(''activityType'', PDict [(''typeKey'', PStr ''running'')]),
                  (''distance'', PInt 10000), (''duration'', PInt 3000),
                  (''startTimeLocal'', PStr ''2024-01-01T06:00:00'')] # [ex_summary])"
    by code_simp
  have a: "get_latest_run ex_runtime (ex_sync [ex_ride_1, ex_summary_no_id, ex_summary]) =
      (None, [(INFO, ''Found total activities''), (INFO, ''Found running activities''),
              (ERROR, ''Error getting latest run'')])"
    using missing_identifier [where G = "ex_sync [ex_ride_1, ex_summary_no_id, ex_summary]"
        and c = "ex_service [ex_ride_1, ex_summary_no_id, ex_summary]"
        and activities = "[ex_ride_1, ex_summary_no_id, ex_summary]"
        and kvs = "[(''activityType'', PDict [(''typeKey'', PStr ''running'')]),
                  (''distance'', PInt 10000), (''duration'', PInt 3000),
                  (''startTimeLocal'', PStr ''2024-01-01T06:00:00'')]"
        and others = "[ex_summary]" and R = ex_runtime] l g r
    by simp
  have b: "format_activity_data ex_runtime (ex_sync []) (PDict []) PNone
        = (None, [(ERROR, ''Error formatting activity data'')])"
    using missing_identifier [where summary_activity = PNone and R = ex_runtime
        and G = "ex_sync []" and detailed_activity = "PDict []"]
    by simp
  have "fst (format_activity_data ex_runtime (ex_sync []) (PDict []) ex_summary_no_id) \<noteq> None"
    by code_simp
  then obtain fd where
    f: "fst (format_activity_data ex_runtime (ex_sync []) (PDict []) ex_summary_no_id) = Some fd"
    by blast
  have "activity_id fd = ''None''"
    using missing_identifier [where R = ex_runtime and G = "ex_sync []"
        and detailed_activity = "PDict []" and fd = fd
        and kvs = "[(''activityType'', PDict [(''typeKey'', PStr ''running'')]),
                  (''distance'', PInt 10000), (''duration'', PInt 3000),
                  (''startTimeLocal'', PStr ''2024-01-01T06:00:00'')]"] f
    by (simp add: ex_summary_no_id_def)
  with a b f show ?thesis by simp
qed

text \<open>
  C8 as stated fails: from a summary without \<^verbatim>\<open>activityId\<close> the normalizer produces a
  record whose identifier is the string \<^verbatim>\<open>None\<close>.
\<close>

theorem bogus_identifier_counterexample:
  "dict_item ex_summary_no_id ''activityId'' = Inl KeyError
   \<and> map_option activity_id
        (fst (format_activity_data ex_runtime (ex_sync []) (PDict []) ex_summary_no_id))
       = Some ''None''"
  by code_simp

subsection \<open>Batch query\<close>

lemma is_recent_start_ok:
  assumes "start_ok R a" "tz cutoff = None"
  shows "is_recent R cutoff a = Inr (started_after R (us cutoff) a)"
proof (cases a)
  case (PDict kvs)
  show ?thesis
  proof (cases "map_of kvs ''startTimeLocal''")
    case None
    with PDict show ?thesis
      by (simp add: is_recent_def started_after_def bindE_def)
  next
    case (Some v)
    with PDict assms show ?thesis
      by (cases v)
        (auto simp: is_recent_def started_after_def start_ok_def bindE_def parse_start_def
          dt_gt_def split: option.splits)
  qed
qed (use assms in \<open>simp_all add: start_ok_def\<close>)

lemma filter_recent_start_ok:
  assumes "\<forall>a \<in> set activities. start_ok R a" "tz cutoff = None"
  shows "filter_recent R cutoff activities = Inr (filter (started_after R (us cutoff)) activities)"
  using assms
  by (induction activities) (simp_all add: is_recent_start_ok bindE_def)

lemma cutoff_date:
  assumes "0 \<le> now R" "now R \<le> max_us" "0 \<le> now R - days_back * day_us"
    "now R - days_back * day_us \<le> max_us"
  shows "bindE (timedelta_days days_back) (\<lambda>delta. dt_add (datetime_now R) (- delta))
           = Inr \<lparr>us = now R - days_back * day_us, tz = None\<rparr>"
proof -
  have "(days_back * day_us) div day_us = days_back"
    by (simp add: day_us_def)
  moreover have "- 999999999 \<le> days_back" "days_back \<le> 999999999"
    using assms by (simp_all add: day_us_def max_us_def)
  ultimately have "timedelta_ok (days_back * day_us)"
    by (simp add: timedelta_ok_def)
  then show ?thesis
    using assms(3,4) by (simp add: timedelta_days_def dt_add_def bindE_def datetime_now_def)
qed

text \<open>
  C9 as amended. The batch query has no filter on the activity type. When the client is
  logged in, the listing of the first 10 N activities succeeds, every listed activity is a
  record whose start-time string is missing, empty or parses to a time without a UTC
  offset, and the clock reading and the time N days before it are valid dates (years 1 to
  9999), the query returns, without an error, exactly the listed activities whose
  start-time string is not empty and parses to a time later than the current time minus
  N days, in the order of the listing.
\<close>

theorem activities_since_window:
  assumes "logged_in G" and "client G = Some c"
    and "get_activities c 0 (days_back * 10) = Inr activities"
    and "0 \<le> now R" and "now R \<le> max_us"
    and "0 \<le> now R - days_back * day_us" and "now R - days_back * day_us \<le> max_us"
    and "\<forall>a \<in> set activities. start_ok R a"
  shows "get_activities_since R G days_back
           = (filter (started_after R (now R - days_back * day_us)) activities, [])"
proof -
  let ?cutoff = "\<lparr>us = now R - days_back * day_us, tz = None\<rparr>"
  have c: "bindE (timedelta_days days_back) (\<lambda>delta. dt_add (datetime_now R) (- delta))
      = Inr ?cutoff"
    using assms(4-7) by (rule cutoff_date)
  have "filter_recent R ?cutoff activities
          = Inr (filter (started_after R (us ?cutoff)) activities)"
    using assms(8) by (intro filter_recent_start_ok) simp_all
  then show ?thesis
    using assms(1-3) c by (simp add: get_activities_since_def)
qed

text \<open>
  Activities one, ten and forty days back with a lookback of seven days: exactly the
  first is returned.
\<close>

theorem activities_since_window_witness:
  "get_activities_since ex_runtime (ex_sync [ex_run_1, ex_run_10, ex_run_40]) 7 = ([ex_run_1], [])"
proof -
  have l: "logged_in (ex_sync [ex_run_1, ex_run_10, ex_run_40])"
    "client (ex_sync [ex_run_1, ex_run_10, ex_run_40])
       = Some (ex_service [ex_run_1, ex_run_10, ex_run_40])"
    by (simp_all add: ex_sync_def)
  have g: "get_activities (ex_service [ex_run_1, ex_run_10, ex_run_40]) 0 (7 * 10)
      = Inr [ex_run_1, ex_run_10, ex_run_40]"
    by (simp add: ex_service_def)
  have n: "0 \<le> now ex_runtime" "now ex_runtime \<le> max_us"
    "0 \<le> now ex_runtime - 7 * day_us" "now ex_runtime - 7 * day_us \<le> max_us"
    by code_simp+
  have s: "\<forall>a \<in> set [ex_run_1, ex_run_10, ex_run_40]. start_ok ex_runtime a"
    by code_simp
  have f: "filter (started_after ex_runtime (now ex_runtime - 7 * day_us))
      [ex_run_1, ex_run_10, ex_run_40] = [ex_run_1]"
    by code_simp
  from activities_since_window [OF l g n s] f show ?thesis by simp
qed

text \<open>
  C9 as stated fails: a ride of yesterday is not a running activity, and the batch query
  returns it.
\<close>

theorem activities_since_type_counterexample:
  "is_running ex_ride_1 = Inr False
   \<and> get_activities_since ex_runtime (ex_sync [ex_ride_1, ex_run_10]) 7 = ([ex_ride_1], [])"
  by code_simp


lemma filter_recent_member:
  "filter_recent R cutoff activities = Inr r \<Longrightarrow> a \<in> set r \<Longrightarrow> is_recent R cutoff a = Inr True"
proof (induction activities arbitrary: r)
  case Nil
  then show ?case by simp
next
  case (Cons x xs)
  then show ?case
    by (auto simp: bindE_def split: sum.splits if_splits)
qed

lemma is_recent_has_start: "is_recent R cutoff a = Inr True \<Longrightarrow> \<not> no_start a"
  by (cases a) (auto simp: is_recent_def no_start_def bindE_def split: option.splits if_splits)

lemma no_start_not_recent: "no_start a \<Longrightarrow> is_recent R cutoff a = Inr False"
  by (cases a) (auto simp: is_recent_def no_start_def bindE_def split: option.splits)

lemma filter_recent_drop_no_start:
  "filter_recent R cutoff (filter (\<lambda>a. \<not> no_start a) activities) = filter_recent R cutoff activities"
  by (induction activities) (auto simp: no_start_not_recent bindE_def split: sum.splits)

lemma activities_since_member:
  assumes "a \<in> set (fst (get_activities_since R G days_back))"
  shows "\<not> no_start a"
proof -
  from assms obtain cutoff activities r where
    "filter_recent R cutoff activities = Inr r" "a \<in> set r"
    by (auto simp: get_activities_since_def split: if_splits option.splits sum.splits)
  then show ?thesis
    using filter_recent_member is_recent_has_start by blast
qed

text \<open>
  C10. An activity whose start-time string is missing or empty is never in the result of
  the batch query, and its exclusion is silent: result and log are those of the same
  listing without such activities.
\<close>

theorem no_start_excluded:
  "(a \<in> set (fst (get_activities_since R G days_back)) \<longrightarrow> \<not> no_start a)
   \<and> (logged_in G = logged_in G' \<and> client G = Some c \<and> client G' = Some c'
       \<and> get_activities c 0 (days_back * 10) = Inr activities
       \<and> get_activities c' 0 (days_back * 10) = Inr (filter (\<lambda>a. \<not> no_start a) activities)
       \<longrightarrow> get_activities_since R G days_back = get_activities_since R G' days_back)"
proof (intro conjI impI)
  assume "a \<in> set (fst (get_activities_since R G days_back))"
  then show "\<not> no_start a" by (rule activities_since_member)
next
  assume "logged_in G = logged_in G' \<and> client G = Some c \<and> client G' = Some c'
       \<and> get_activities c 0 (days_back * 10) = Inr activities
       \<and> get_activities c' 0 (days_back * 10) = Inr (filter (\<lambda>a. \<not> no_start a) activities)"
  then show "get_activities_since R G days_back = get_activities_since R G' days_back"
    by (simp add: get_activities_since_def filter_recent_drop_no_start cong: sum.case_cong)
qed

text \<open>A run without start time listed before a run of yesterday.\<close>

theorem no_start_excluded_witness:
  "no_start ex_run_no_start
   \<and> ex_run_no_start \<notin> set (fst (get_activities_since ex_runtime (ex_sync [ex_run_no_start, ex_run_1]) 7))
   \<and> get_activities_since ex_runtime (ex_sync [ex_run_no_start, ex_run_1]) 7
       = get_activities_since ex_runtime (ex_sync [ex_run_1]) 7
   \<and> get_activities_since ex_runtime (ex_sync [ex_run_1]) 7 = ([ex_run_1], [])"
proof -
  have n: "no_start ex_run_no_start" "\<not> no_start ex_run_1"
    by code_simp+
  have a: "ex_run_no_start \<notin> set (fst (get_activities_since ex_runtime
      (ex_sync [ex_run_no_start, ex_run_1]) 7))"
    using no_start_excluded [where a = ex_run_no_start and R = ex_runtime
        and G = "ex_sync [ex_run_no_start, ex_run_1]" and days_back = 7] n
    by blast
  have b: "get_activities_since ex_runtime (ex_sync [ex_run_no_start, ex_run_1]) 7
       = get_activities_since ex_runtime (ex_sync [ex_run_1]) 7"
    using no_start_excluded [where R = ex_runtime
        and G = "ex_sync [ex_run_no_start, ex_run_1]" and G' = "ex_sync [ex_run_1]"
        and c = "ex_service [ex_run_no_start, ex_run_1]" and c' = "ex_service [ex_run_1]"
        and activities = "[ex_run_no_start, ex_run_1]" and days_back = 7] n
    by (simp add: ex_sync_def ex_service_def)
  have c: "get_activities_since ex_runtime (ex_sync [ex_run_1]) 7 = ([ex_run_1], [])"
    by code_simp
  from n a b c show ?thesis by simp
qed

subsection \<open>Deduplication\<close>

lemma truncate_activity_id: "activity_id (run_data.truncate a) = activity_id a"
  by (simp add: run_data.truncate_def)

lemma stored_as_empty: "stored_as db x = [] \<longleftrightarrow> (\<forall>r \<in> set (runs db). activity_id (row r) \<noteq> x)"
  by (auto simp: stored_as_def filter_empty_conv)

lemma lookup_finds:
  assumes "tables db" "\<not> fault" "stored_as db x \<noteq> []"
  shows "\<exists>i. get_activity_by_id fault db x = (Some i, [])"
proof -
  from assms(3) have "find (\<lambda>r. activity_id (row r) = x) (runs db) \<noteq> None"
    by (auto simp: stored_as_empty find_None_iff)
  with assms(1,2) show ?thesis
    by (auto simp: get_activity_by_id_def)
qed

lemma insert_gps_points_keeps:
  assumes "insert_gps_points fault consumed db rid pts = (db', lg)"
  shows "runs db' = runs db" and "tables db' = tables db"
  using assms by (auto simp: insert_gps_points_def split: if_splits)

lemma store_activity_duplicate:
  assumes "tables db" "\<not> select_fault S" "stored_as db (activity_id a) \<noteq> []"
  shows "store_activity S db a = (db, [(INFO, ''Activity already exists in database'')])"
proof -
  from lookup_finds [OF assms] obtain i where
    "get_activity_by_id (select_fault S) db (activity_id a) = (Some i, [])"
    by blast
  then show ?thesis by (simp add: store_activity_def)
qed

lemma insert_run_existing:
  assumes "stored_as db (activity_id rd) \<noteq> []"
  shows "runs (fst (insert_run fault consumed db rd)) = runs db"
    and "gps_rows (fst (insert_run fault consumed db rd)) = gps_rows db"
    and "fst (snd (insert_run fault consumed db rd)) = None"
  using assms by (auto simp: insert_run_def stored_as_empty)

lemma store_activity_existing:
  assumes "stored_as db (activity_id a) \<noteq> []"
  shows "runs (fst (store_activity S db a)) = runs db"
    and "gps_rows (fst (store_activity S db a)) = gps_rows db"
proof -
  have e: "stored_as db (activity_id (run_data.truncate a)) \<noteq> []"
    using assms by (simp add: truncate_activity_id)
  show "runs (fst (store_activity S db a)) = runs db"
    using insert_run_existing [OF e, of "insert_fault S" "insert_consumed S"]
    by (auto simp: store_activity_def split: prod.splits option.splits)
  show "gps_rows (fst (store_activity S db a)) = gps_rows db"
    using insert_run_existing [OF e, of "insert_fault S" "insert_consumed S"]
    by (auto simp: store_activity_def split: prod.splits option.splits)
qed

lemma store_activity_fresh:
  assumes "tables db" "\<not> select_fault S" "\<not> insert_fault S" "stored_as db (activity_id a) = []"
  shows "runs (fst (store_activity S db a))
           = runs db @ [\<lparr>row_id = runs_seq db, row = run_data.truncate a\<rparr>]"
    and "tables (fst (store_activity S db a))"
proof -
  have m: "get_activity_by_id (select_fault S) db (activity_id a) = (None, [])"
    using assms by (auto simp: get_activity_by_id_def stored_as_empty find_None_iff)
  have i: "insert_run (insert_fault S) (insert_consumed S) db (run_data.truncate a) =
      (db\<lparr>runs := runs db @ [\<lparr>row_id = runs_seq db, row = run_data.truncate a\<rparr>],
          runs_seq := Suc (runs_seq db)\<rparr>, Some (runs_seq db), [(INFO, ''Run inserted'')])"
    using assms by (auto simp: insert_run_def stored_as_empty truncate_activity_id)
  show "runs (fst (store_activity S db a))
           = runs db @ [\<lparr>row_id = runs_seq db, row = run_data.truncate a\<rparr>]"
    using m i by (auto simp: store_activity_def split: prod.splits dest: insert_gps_points_keeps)
  show "tables (fst (store_activity S db a))"
    using m i assms(1)
    by (auto simp: store_activity_def split: prod.splits dest: insert_gps_points_keeps)
qed

lemma main_cases:
  "fst (main R S db) = db \<or> fst (main R S db) = db\<lparr>tables := True\<rparr>
   \<or> (\<exists>a db1. (db1 = db \<or> db1 = db\<lparr>tables := True\<rparr>)
         \<and> fst (get_latest_run R (fst (login S))) = Some a
         \<and> fst (main R S db) = fst (store_activity S db1 a))"
  by (auto simp: main_def create_tables_def login_def split: prod.splits option.splits)

lemma main_first_run:
  assumes "credentials_set S" "db_connects S" "\<not> create_fault S" "login_succeeds S"
    and "fst (get_latest_run R (fst (login S))) = Some a"
  shows "fst (main R S db) = fst (store_activity S (db\<lparr>tables := True\<rparr>) a)"
  using assms
  by (auto simp: main_def create_tables_def login_def split: prod.splits option.splits)

lemma tables_set: "tables db \<Longrightarrow> db\<lparr>tables := True\<rparr> = db"
  by (cases db) simp


lemma stored_as_tables: "stored_as (db\<lparr>tables := b\<rparr>) x = stored_as db x"
  by (simp add: stored_as_def)

lemma first_run_stores:
  assumes "credentials_set S" "db_connects S" "\<not> create_fault S" "\<not> select_fault S"
    "\<not> insert_fault S" "login_succeeds S"
    and "fst (get_latest_run R (fst (login S))) = Some a"
    and "stored_as db (activity_id a) = []"
  shows "length (stored_as (fst (main R S db)) (activity_id a)) = 1"
    and "tables (fst (main R S db))"
proof -
  have m: "fst (main R S db) = fst (store_activity S (db\<lparr>tables := True\<rparr>) a)"
    using assms(1,2,3,6,7) by (rule main_first_run)
  have e: "stored_as (db\<lparr>tables := True\<rparr>) (activity_id a) = []"
    using assms(8) by (simp add: stored_as_tables)
  have t: "tables (db\<lparr>tables := True\<rparr>)" by simp
  from store_activity_fresh [OF t assms(4) assms(5) e] assms(8)
  show "length (stored_as (fst (main R S db)) (activity_id a)) = 1"
    and "tables (fst (main R S db))"
    by (simp_all add: m stored_as_def truncate_activity_id)
qed

lemma second_run_keeps:
  assumes "tables db" "stored_as db x \<noteq> []"
    and "\<forall>a. fst (get_latest_run R (fst (login S))) = Some a \<longrightarrow> activity_id a = x"
  shows "runs (fst (main R S db)) = runs db"
    and "gps_rows (fst (main R S db)) = gps_rows db"
    and "\<not> select_fault S \<longrightarrow> fst (main R S db) = db"
proof -
  from main_cases [of R S db] tables_set [OF assms(1)]
  consider "fst (main R S db) = db"
    | a where "fst (get_latest_run R (fst (login S))) = Some a"
        "fst (main R S db) = fst (store_activity S db a)"
    by auto
  then have "runs (fst (main R S db)) = runs db \<and> gps_rows (fst (main R S db)) = gps_rows db
      \<and> (\<not> select_fault S \<longrightarrow> fst (main R S db) = db)"
  proof cases
    case 1
    then show ?thesis by simp
  next
    case 2
    with assms(3) have x: "stored_as db (activity_id a) \<noteq> []"
      using assms(2) by simp
    from store_activity_existing [OF x, of S] store_activity_duplicate [OF assms(1) _ x, of S] 2(2)
    show ?thesis by auto
  qed
  then show "runs (fst (main R S db)) = runs db"
    and "gps_rows (fst (main R S db)) = gps_rows db"
    and "\<not> select_fault S \<longrightarrow> fst (main R S db) = db"
    by simp_all
qed

text \<open>
  C1. The duplicate check reads the stored runs by external identifier before any write:
  when it finds a row, the run ends with the store unchanged and the activity logged as
  already there. After a run that stored an activity, a second run that meets the same
  external identifier leaves both tables as they were, so exactly one row holds that
  identifier; when the read of the second run does not fail, the whole store is unchanged.
\<close>

theorem ingest_idempotent:
  "(tables db \<and> \<not> select_fault S \<and> stored_as db (activity_id a) \<noteq> [] \<longrightarrow>
      store_activity S db a = (db, [(INFO, ''Activity already exists in database'')]))
   \<and> (credentials_set S1 \<and> db_connects S1 \<and> \<not> create_fault S1 \<and> \<not> select_fault S1
       \<and> \<not> insert_fault S1 \<and> login_succeeds S1
       \<and> fst (get_latest_run R1 (fst (login S1))) = Some a1
       \<and> stored_as db0 (activity_id a1) = []
       \<and> (\<forall>a2. fst (get_latest_run R2 (fst (login S2))) = Some a2
                 \<longrightarrow> activity_id a2 = activity_id a1) \<longrightarrow>
         length (stored_as (fst (main R1 S1 db0)) (activity_id a1)) = 1
         \<and> runs (fst (main R2 S2 (fst (main R1 S1 db0)))) = runs (fst (main R1 S1 db0))
         \<and> gps_rows (fst (main R2 S2 (fst (main R1 S1 db0)))) = gps_rows (fst (main R1 S1 db0))
         \<and> length (stored_as (fst (main R2 S2 (fst (main R1 S1 db0)))) (activity_id a1)) = 1
         \<and> (\<not> select_fault S2 \<longrightarrow>
              fst (main R2 S2 (fst (main R1 S1 db0))) = fst (main R1 S1 db0)))"
proof (intro conjI impI)
  assume "tables db \<and> \<not> select_fault S \<and> stored_as db (activity_id a) \<noteq> []"
  then show "store_activity S db a = (db, [(INFO, ''Activity already exists in database'')])"
    by (simp add: store_activity_duplicate)
next
  assume h: "credentials_set S1 \<and> db_connects S1 \<and> \<not> create_fault S1 \<and> \<not> select_fault S1
       \<and> \<not> insert_fault S1 \<and> login_succeeds S1
       \<and> fst (get_latest_run R1 (fst (login S1))) = Some a1
       \<and> stored_as db0 (activity_id a1) = []
       \<and> (\<forall>a2. fst (get_latest_run R2 (fst (login S2))) = Some a2
                 \<longrightarrow> activity_id a2 = activity_id a1)"
  let ?db1 = "fst (main R1 S1 db0)"
  from h have c: "credentials_set S1" "db_connects S1" "\<not> create_fault S1" "\<not> select_fault S1"
    "\<not> insert_fault S1" "login_succeeds S1"
    "fst (get_latest_run R1 (fst (login S1))) = Some a1" "stored_as db0 (activity_id a1) = []"
    by blast+
  have one: "length (stored_as ?db1 (activity_id a1)) = 1" and t: "tables ?db1"
    by (rule first_run_stores [OF c])+
  then have ne: "stored_as ?db1 (activity_id a1) \<noteq> []" by auto
  from h have same: "\<forall>a. fst (get_latest_run R2 (fst (login S2))) = Some a
      \<longrightarrow> activity_id a = activity_id a1"
    by blast
  note k = second_run_keeps [OF t ne same]
  show "length (stored_as ?db1 (activity_id a1)) = 1" by (rule one)
  show "runs (fst (main R2 S2 ?db1)) = runs ?db1" by (rule k(1))
  show "gps_rows (fst (main R2 S2 ?db1)) = gps_rows ?db1" by (rule k(2))
  show "length (stored_as (fst (main R2 S2 ?db1)) (activity_id a1)) = 1"
    using one k(1) by (simp add: stored_as_def)
  assume "\<not> select_fault S2"
  then show "fst (main R2 S2 ?db1) = ?db1" using k(3) by simp
qed



text \<open>
  The scenario of the specification: the activity 42 (10000 m in 3000 s, no track) is
  stored once with the pace 300 and no samples; the second run changes nothing and
  reports the activity as already there.
\<close>

theorem ingest_idempotent_witness:
  "map (\<lambda>r. (row_id r, activity_id (row r), avg_pace_seconds_per_km (row r)))
       (runs (fst (main ex_runtime ex_session ex_db))) = [(1, ''42'', PFloat (Finite 300))]
   \<and> gps_rows (fst (main ex_runtime ex_session ex_db)) = []
   \<and> length (stored_as (fst (main ex_runtime ex_session ex_db)) ''42'') = 1
   \<and> fst (main ex_runtime ex_session (fst (main ex_runtime ex_session ex_db)))
       = fst (main ex_runtime ex_session ex_db)
   \<and> length (stored_as (fst (main ex_runtime ex_session (fst (main ex_runtime ex_session ex_db))))
        ''42'') = 1
   \<and> map_option (store_activity ex_session (fst (main ex_runtime ex_session ex_db)))
        (fst (get_latest_run ex_runtime (fst (login ex_session))))
       = Some (fst (main ex_runtime ex_session ex_db),
               [(INFO, ''Activity already exists in database'')])"
proof -
  let ?db1 = "fst (main ex_runtime ex_session ex_db)"
  have "fst (get_latest_run ex_runtime (fst (login ex_session))) \<noteq> None"
    by code_simp
  then obtain a1 where g: "fst (get_latest_run ex_runtime (fst (login ex_session))) = Some a1"
    by blast
  have "map_option activity_id (fst (get_latest_run ex_runtime (fst (login ex_session))))
      = Some ''42''"
    by code_simp
  with g have i: "activity_id a1 = ''42''" by simp
  have s: "credentials_set ex_session" "db_connects ex_session" "\<not> create_fault ex_session"
    "\<not> select_fault ex_session" "\<not> insert_fault ex_session" "login_succeeds ex_session"
    by (simp_all add: ex_session_def)
  have e: "stored_as ex_db (activity_id a1) = []"
    by (simp add: stored_as_def ex_db_def)
  have r: "map (\<lambda>r. (row_id r, activity_id (row r), avg_pace_seconds_per_km (row r))) (runs ?db1)
      = [(1, ''42'', PFloat (Finite 300))]"
    by code_simp
  have p: "gps_rows ?db1 = []"
    by code_simp
  have t: "tables ?db1"
    by code_simp
  note w = ingest_idempotent [where ?S1.0 = ex_session and ?R1.0 = ex_runtime
      and ?S2.0 = ex_session and ?R2.0 = ex_runtime and ?a1.0 = a1 and ?db0.0 = ex_db
      and S = ex_session and db = ?db1 and a = a1]
  from w s g e have one: "length (stored_as ?db1 (activity_id a1)) = 1"
    by simp
  from w s g e have two: "fst (main ex_runtime ex_session ?db1) = ?db1"
    by simp
  from one have "stored_as ?db1 (activity_id a1) \<noteq> []"
    by auto
  with w s t have "store_activity ex_session ?db1 a1
      = (?db1, [(INFO, ''Activity already exists in database'')])"
    by blast
  with one two r p g i show ?thesis by simp
qed

end
